theory Spec2Isabelle
  imports Complex_Main
begin

section \<open>Values exchanged with the outside world\<close>

text \<open>
  JSON documents (request metadata, HTTP responses) are Python objects built from
  \<open>None\<close>, booleans, integers, strings, lists and dictionaries. A dictionary keeps its
  insertion order, so it is an association list. Floating-point members are left out.
  A string is a list of code points below 256.
\<close>

datatype json =
    JNull
  | JBool bool
  | JInt int
  | JStr string
  | JArr "json list"
  | JObj "(string \<times> json) list"

text \<open>Python truthiness, as tested by \<open>if response:\<close> and \<open>if not response:\<close>.\<close>

fun truthy :: "json \<Rightarrow> bool" where
  "truthy JNull = False"
| "truthy (JBool b) = b"
| "truthy (JInt n) = (n \<noteq> 0)"
| "truthy (JStr s) = (s \<noteq> [])"
| "truthy (JArr xs) = (xs \<noteq> [])"
| "truthy (JObj m) = (m \<noteq> [])"

text \<open>\<open>d[k] = v\<close> on an insertion-ordered dictionary: an existing key keeps its place.\<close>

fun dict_set :: "string \<Rightarrow> 'v \<Rightarrow> (string \<times> 'v) list \<Rightarrow> (string \<times> 'v) list" where
  "dict_set k v [] = [(k, v)]"
| "dict_set k v ((k', v') # m) =
     (if k' = k then (k, v) # m else (k', v') # dict_set k v m)"

text \<open>\<open>d.update(other)\<close>: the entries of \<open>other\<close> are stored one by one, in order.\<close>

definition dict_update :: "(string \<times> 'v) list \<Rightarrow> (string \<times> 'v) list \<Rightarrow> (string \<times> 'v) list" where
  "dict_update d other = fold (\<lambda>(k, v). dict_set k v) other d"

section \<open>Failures, effects and the result of an effectful function\<close>

text \<open>
  Every way the source leaves a function other than by \<open>return\<close>:
  \<open>sys.exit(1)\<close> raises \<open>SystemExit\<close>, a missing dictionary key raises \<open>KeyError\<close>,
  a missing key file raises \<open>FileNotFoundError\<close>, \<open>time.sleep\<close> of a negative length
  and \<open>asyncio.wait\<close> of no task raise \<open>ValueError\<close>, as do \<open>bytes.fromhex\<close> and
  \<open>to_checksum_address\<close> on a text they do not accept; subscripting a non-dictionary
  and adding \<open>None\<close> to a string raise \<open>TypeError\<close>; \<open>LedgerError\<close> is an exception
  raised by the ledger API outside of any \<open>try\<close>, and \<open>PushError\<close> one raised by
  \<open>push_metadata_to_ipfs\<close>.
\<close>

datatype failure =
    SystemExit int
  | KeyError
  | FileNotFoundError
  | ValueError
  | TypeError
  | LedgerError
  | PushError

text \<open>
  What the program does to the outside world, in the order it does it. \<open>Print\<close> carries
  the text of the source's format string (placeholders are not substituted: the event
  says which \<open>print\<close> ran). \<open>EthCall c f\<close> is a read-only call of function \<open>f\<close> of the
  contract at \<open>c\<close>; \<open>BuildTx c m v\<close> builds a transaction calling method \<open>m\<close> of \<open>c\<close>
  with \<open>v\<close> attached as its value. \<open>HttpGet u vs\<close> is a GET request: \<open>u\<close> is the text of
  the URL as the source writes it and \<open>vs\<close> are the values placed in it or sent with it.
  \<open>RegisterHandlers a r d\<close> registers the event handlers on the websocket for the contract
  at \<open>a\<close> with the request and deliver topics \<open>r\<close> and \<open>d\<close>.
\<close>

datatype watch = OnChainWatch | OffChainWatch

datatype event =
    Print string
  | WssConnect string
  | EthCall string string
  | BuildTx string string int
  | SignTx
  | SendTx
  | SignMessage
  | Sleep rat
  | WaitReceipt string
  | VerifyTool
  | RegisterHandlers string string string
  | IpfsPush
  | HttpPost string
  | HttpGet string "json list"
  | WatchRequestId string
  | CreateTask watch string
  | CancelTask watch

type_synonym 'a io = "event list \<times> (failure + 'a)"

definition done_io :: "'a \<Rightarrow> 'a io" where
  "done_io x = ([], Inr x)"

definition raise_io :: "failure \<Rightarrow> 'a io" where
  "raise_io e = ([], Inl e)"

definition emit :: "event list \<Rightarrow> unit io" where
  "emit es = (es, Inr ())"

text \<open>Sequencing: a failure of the first part ends the whole, keeping the events so far.\<close>

definition andthen :: "'a io \<Rightarrow> ('a \<Rightarrow> 'b io) \<Rightarrow> 'b io" where
  "andthen m f =
     (case m of
        (es, Inl e) \<Rightarrow> (es, Inl e)
      | (es, Inr a) \<Rightarrow> (case f a of (es', r) \<Rightarrow> (es @ es', r)))"

section \<open>Constants of the module\<close>

definition PAYMENT_TYPE_NATIVE :: string where
  "PAYMENT_TYPE_NATIVE = ''ba699a34be8fe0e7725e93dcbce1701b0211a8ca61330aaeb8a05bf2ec7abed1''"

definition PAYMENT_TYPE_TOKEN :: string where
  "PAYMENT_TYPE_TOKEN = ''3679d66ef546e66ce9057c4a052f317b135bc8e8c509638f7966edfd4fcf45e9''"

definition PAYMENT_TYPE_NVM :: string where
  "PAYMENT_TYPE_NVM = ''803dd08fe79d91027fc9024e254a0942372b92f3ccabc1bd19f4a5c2b251c316''"

definition ADDRESS_ZERO :: string where
  "ADDRESS_ZERO = ''0x0000000000000000000000000000000000000000''"

definition CHAIN_TO_WRAPPED_TOKEN :: "(int \<times> string) list" where
  "CHAIN_TO_WRAPPED_TOKEN =
     [(1, ''0xC02aaA39b223FE8D0A0e5C4F27eAD9083C756Cc2''),
      (10, ''0x4200000000000000000000000000000000000006''),
      (100, ''0xe91D153E0b41518A2Ce8Dd3D7944Fa863463a97d''),
      (137, ''0x0d500B1d8E8eF31E21C99d1Db9A6444d3ADf1270''),
      (8453, ''0x4200000000000000000000000000000000000006''),
      (42220, ''0x471EcE3750Da237f93B8E339c536989b8978a438'')]"

text \<open>
  The request configuration (the class \<open>MechMarketplaceRequestConfig\<close> is declared in
  \<open>mech_client.interact\<close>): the four entries of the default table, and the two
  attributes \<open>delivery_rate\<close> and \<open>payment_type\<close>, which are \<open>None\<close> until
  \<open>marketplace_interact\<close> sets them. Field names carry the prefix \<open>rc_\<close>.
\<close>

record MechMarketplaceRequestConfig =
  rc_mech_marketplace_contract :: string
  rc_priority_mech_address :: string
  rc_response_timeout :: int
  rc_payment_data :: string
  rc_delivery_rate :: "int option"
  rc_payment_type :: "string option"

definition CHAIN_TO_DEFAULT_MECH_MARKETPLACE_REQUEST_CONFIG ::
  "(int \<times> MechMarketplaceRequestConfig) list" where
  "CHAIN_TO_DEFAULT_MECH_MARKETPLACE_REQUEST_CONFIG =
     [(100, \<lparr>rc_mech_marketplace_contract = ''0x735FAAb1c4Ec41128c367AFb5c3baC73509f70bB'',
             rc_priority_mech_address = ''0x478ad20eD958dCC5AD4ABa6F4E4cc51e07a840E4'',
             rc_response_timeout = 300,
             rc_payment_data = ''0x'',
             rc_delivery_rate = None,
             rc_payment_type = None\<rparr>)]"

text \<open>
  \<open>MAX_RETRIES\<close>, \<open>TIMEOUT\<close>, \<open>WAIT_SLEEP\<close> and \<open>PRIVATE_KEY_FILE_PATH\<close> are imported
  from \<open>mech_client.interact\<close>; their values are parameters here. Times are seconds,
  as exact rationals in place of Python's floats.
\<close>

record imported_constants =
  MAX_RETRIES :: int
  TIMEOUT :: rat
  WAIT_SLEEP :: rat
  PRIVATE_KEY_FILE_PATH :: string

text \<open>Python's \<open>x or d\<close> on an optional number: \<open>None\<close> and zero both give \<open>d\<close>.\<close>

definition or_default :: "'a::zero option \<Rightarrow> 'a \<Rightarrow> 'a" where
  "or_default x d = (case x of None \<Rightarrow> d | Some v \<Rightarrow> if v = 0 then d else v)"

section \<open>The retry loop of the two senders\<close>

text \<open>
  \<open>send_marketplace_request\<close> (lines 324 to 351) and
  \<open>send_offchain_marketplace_request\<close> (lines 404 to 448) run the same loop:
  \<^verbatim>\<open>
    tries = 0
    deadline = datetime.now().timestamp() + timeout
    while tries < retries and datetime.now().timestamp() < deadline:
        tries += 1
        try:
            ...; return result
        except Exception as e:
            print(...); time.sleep(sleep)
    return None
  \<close>
  The clock is part of the state of the loop: \<open>now\<close> is the value that
  \<open>datetime.now().timestamp()\<close> has when the loop test is evaluated with \<open>tries\<close>
  attempts made. \<open>time.sleep(sleep)\<close> suspends the program for at least \<open>sleep\<close> seconds,
  so that the test after a failed attempt \<open>k\<close> is evaluated at \<open>now + took k + sleep\<close>:
  \<open>took k\<close> is what the environment adds, the time that attempt \<open>k\<close> and the \<open>print\<close>
  take and the time by which the sleep lasts longer than asked. Nothing in the loop
  says that \<open>took k\<close> is not negative (the wall clock can be set back). The body of
  \<open>try\<close> is given by the environment as well: attempt \<open>k\<close> produces events and either
  returns a value or raises. The loop returns the final value of \<open>tries\<close> beside the
  events and the result.
\<close>

datatype 'a attempt = Raised | Returned 'a

function submission_loop ::
  "(nat \<Rightarrow> rat) \<Rightarrow> (nat \<Rightarrow> event list \<times> 'a attempt) \<Rightarrow> string \<Rightarrow> int \<Rightarrow> rat \<Rightarrow> rat \<Rightarrow> nat
     \<Rightarrow> rat \<Rightarrow> nat \<times> 'a option io" where
  "submission_loop took body msg retries deadline sleep tries now =
     (if int tries < retries \<and> now < deadline then
        (case body (Suc tries) of
           (es, Returned r) \<Rightarrow> (Suc tries, es, Inr (Some r))
         | (es, Raised) \<Rightarrow>
             if sleep < 0 then (Suc tries, es @ [Print msg], Inl ValueError)
             else
               (case submission_loop took body msg retries deadline sleep (Suc tries)
                       (now + took (Suc tries) + sleep) of
                  (n, es', r) \<Rightarrow> (n, es @ [Print msg, Sleep sleep] @ es', r)))
      else (tries, [], Inr None))"
  by pat_completeness auto
termination
  by (relation "measure (\<lambda>(took, body, msg, retries, deadline, sleep, tries, now).
                            nat (retries - int tries))")
     auto

declare submission_loop.simps [simp del]

section \<open>Collaborators\<close>

text \<open>
  Everything the module reads from outside is a field of one record. Contract reads
  are assumed to answer (the ledger is taken as reliable); transaction and message
  submissions may raise, which is what the source's retry loops expect. A 32-byte
  value (payment type, request identifier) is written as the hexadecimal text that
  \<open>.hex()\<close> gives for it. \<open>push_metadata_to_ipfs\<close> is the pair of hashes that the
  function of that name returns, or \<open>None\<close> when it raises; \<open>to_checksum_address\<close> is
  \<open>None\<close> on a text that \<open>eth_utils\<close> rejects. \<open>now_timestamp\<close> is the value of
  \<open>datetime.now().timestamp()\<close> when a sender computes its deadline; \<open>lapse 0\<close> is the
  time from there to the first test of the retry loop and \<open>lapse k\<close>, for \<open>k \<ge> 1\<close>, the
  time that attempt \<open>k\<close> adds to the requested sleep.
\<close>

datatype send_outcome = BuildRaises | SignRaises | SendRaises | Sent string

datatype offchain_outcome =
  NonceRaises | RequestIdRaises | SignMessageRaises | PostRaises | Posted json

datatype poll_outcome = PollRaises | PollAnswer json

record abi_entry =
  entry_type :: string
  entry_name :: string

record ledger_config =
  chain_id :: int

record mech_config =
  ledger_config :: ledger_config
  mc_mech_marketplace_contract :: string
  wss_endpoint :: string
  gas_limit :: int
  subgraph_url :: string

record world =
  crypto_address :: string
  path_exists :: "string \<Rightarrow> bool"
  marketplace_abi :: "abi_entry list"
  calculate_topic_id :: "abi_entry \<Rightarrow> string"
  paymentType :: "string \<Rightarrow> string"
  maxDeliveryRate :: "string \<Rightarrow> int"
  serviceId :: "string \<Rightarrow> int"
  mapPaymentTypeBalanceTrackers :: "string \<Rightarrow> string \<Rightarrow> string"
  mapRequesterBalances :: "string \<Rightarrow> string \<Rightarrow> int"
  token_balanceOf :: "string \<Rightarrow> string \<Rightarrow> int"
  subscriptionNFT :: "string \<Rightarrow> string"
  subscriptionTokenId :: "string \<Rightarrow> int"
  nft_balanceOf :: "string \<Rightarrow> string \<Rightarrow> int \<Rightarrow> int"
  verify_or_retrieve_tool :: "int \<Rightarrow> string option \<Rightarrow> string"
  approve_send :: send_outcome
  push_metadata_to_ipfs :: "(string \<times> string) option"
  to_checksum_address :: "string \<Rightarrow> string option"
  now_timestamp :: rat
  lapse :: "nat \<Rightarrow> rat"
  request_send :: "nat \<Rightarrow> send_outcome"
  offchain_send :: "nat \<Rightarrow> offchain_outcome"
  watch_for_marketplace_request_id :: "string \<Rightarrow> string"
  first_completed :: "watch list \<Rightarrow> nat"
  watch_result :: "watch \<Rightarrow> string \<Rightarrow> string option"
  offchain_fetch :: "nat \<Rightarrow> poll_outcome"
  http_get_json :: "string \<Rightarrow> json list \<Rightarrow> json"

section \<open>Event topics\<close>

text \<open>
  \<open>get_event_signatures\<close>: one pass over the ABI; a later entry of the same name
  overwrites an earlier one. The result is (request topic, deliver topic).
\<close>

definition get_event_signatures :: "world \<Rightarrow> abi_entry list \<Rightarrow> string \<times> string" where
  "get_event_signatures w abi =
     fold (\<lambda>obj (marketplace_request, marketplace_deliver).
             if entry_type obj \<noteq> ''event'' then (marketplace_request, marketplace_deliver)
             else
               (let marketplace_deliver' =
                      (if entry_name obj = ''MarketplaceDeliver'' then calculate_topic_id w obj
                       else marketplace_deliver);
                    marketplace_request' =
                      (if entry_name obj = ''MarketplaceRequest'' then calculate_topic_id w obj
                       else marketplace_request)
                in (marketplace_request', marketplace_deliver')))
          abi ([], [])"

section \<open>Payment resolution\<close>

text \<open>
  \<open>fetch_mech_info\<close>: three reads of the mech contract, one of the marketplace, then
  the test of the payment type. The result is (payment type, service id, max delivery
  rate, balance tracker address, mech contract); the contract handle is its address.
\<close>

definition info_reads :: "string \<Rightarrow> string \<Rightarrow> event list" where
  "info_reads marketplace_contract mech_address =
     [EthCall mech_address ''paymentType'',
      EthCall mech_address ''maxDeliveryRate'',
      EthCall mech_address ''serviceId'',
      EthCall marketplace_contract ''mapPaymentTypeBalanceTrackers'']"

definition fetch_mech_info ::
  "world \<Rightarrow> string \<Rightarrow> string \<Rightarrow> (string \<times> int \<times> int \<times> string \<times> string) io" where
  "fetch_mech_info w marketplace_contract mech_address =
     (let payment_type = paymentType w mech_address;
          max_delivery_rate = maxDeliveryRate w mech_address;
          service_id = serviceId w mech_address;
          mech_payment_balance_tracker =
            mapPaymentTypeBalanceTrackers w marketplace_contract payment_type
      in andthen (emit (info_reads marketplace_contract mech_address))
           (\<lambda>_. if payment_type \<notin> set [PAYMENT_TYPE_NATIVE, PAYMENT_TYPE_TOKEN, PAYMENT_TYPE_NVM]
                then andthen (emit [Print ''  - Invalid mech type detected.''])
                       (\<lambda>_. raise_io (SystemExit 1))
                else done_io (payment_type, service_id, max_delivery_rate,
                              mech_payment_balance_tracker, mech_address)))"

text \<open>
  \<open>approve_price_tokens\<close>: the wallet's token balance is read first; a balance below
  the price exits. The approve transaction is built, signed and sent once, with no
  \<open>try\<close> around it: an exception of the ledger leaves the function.
\<close>

definition approve_price_tokens ::
  "world \<Rightarrow> string \<Rightarrow> string \<Rightarrow> int \<Rightarrow> string io" where
  "approve_price_tokens w wrapped_token mech_payment_balance_tracker price =
     (let sender = crypto_address w;
          user_token_balance = token_balanceOf w wrapped_token sender
      in andthen (emit [EthCall wrapped_token ''balanceOf''])
           (\<lambda>_. if user_token_balance < price
                then andthen
                       (emit [Print ''  - Sender Token balance low. Needed: {price}, Actual: {user_token_balance}'',
                              Print ''  - Sender Address: {sender}''])
                       (\<lambda>_. raise_io (SystemExit 1))
                else
                  (case approve_send w of
                     BuildRaises \<Rightarrow> ([BuildTx wrapped_token ''approve'' 0], Inl LedgerError)
                   | SignRaises \<Rightarrow> ([BuildTx wrapped_token ''approve'' 0, SignTx], Inl LedgerError)
                   | SendRaises \<Rightarrow>
                       ([BuildTx wrapped_token ''approve'' 0, SignTx, SendTx], Inl LedgerError)
                   | Sent transaction_digest \<Rightarrow>
                       ([BuildTx wrapped_token ''approve'' 0, SignTx, SendTx],
                        Inr transaction_digest))))"

text \<open>
  \<open>fetch_requester_nvm_subscription_balance\<close>: the tracker names the subscription
  token contract and the token id; the requester's balance of that id is read from
  the token contract.
\<close>

definition fetch_requester_nvm_subscription_balance :: "world \<Rightarrow> string \<Rightarrow> string \<Rightarrow> int io" where
  "fetch_requester_nvm_subscription_balance w requester mech_payment_balance_tracker =
     (let subscription_nft_address = subscriptionNFT w mech_payment_balance_tracker;
          subscription_id = subscriptionTokenId w mech_payment_balance_tracker;
          requester_balance = nft_balanceOf w subscription_nft_address requester subscription_id
      in andthen
           (emit [EthCall mech_payment_balance_tracker ''subscriptionNFT'',
                  EthCall mech_payment_balance_tracker ''subscriptionTokenId'',
                  EthCall subscription_nft_address ''balanceOf''])
           (\<lambda>_. done_io requester_balance))"

text \<open>
  \<open>check_prepaid_balances\<close>: two independent \<open>if\<close> statements, one for the native and
  one for the token payment type. No other payment type is looked at.
\<close>

definition check_prepaid_balances :: "world \<Rightarrow> string \<Rightarrow> string \<Rightarrow> int \<Rightarrow> unit io" where
  "check_prepaid_balances w mech_payment_balance_tracker payment_type max_delivery_rate =
     (let requester = crypto_address w
      in andthen
           (if payment_type = PAYMENT_TYPE_NATIVE then
              (let requester_balance = mapRequesterBalances w mech_payment_balance_tracker requester
               in andthen (emit [EthCall mech_payment_balance_tracker ''mapRequesterBalances''])
                    (\<lambda>_. if requester_balance < max_delivery_rate
                         then andthen
                                (emit [Print ''  - Sender Native deposited balance low. Needed: {max_delivery_rate}, Actual: {requester_balance}'',
                                       Print ''  - Sender Address: {requester}'',
                                       Print ''  - Please use scripts/deposit_native.py to add balance''])
                                (\<lambda>_. raise_io (SystemExit 1))
                         else done_io ()))
            else done_io ())
           (\<lambda>_. if payment_type = PAYMENT_TYPE_TOKEN then
                  (let requester_balance = mapRequesterBalances w mech_payment_balance_tracker requester
                   in andthen (emit [EthCall mech_payment_balance_tracker ''mapRequesterBalances''])
                        (\<lambda>_. if requester_balance < max_delivery_rate
                             then andthen
                                    (emit [Print ''  - Sender Token deposited balance low. Needed: {max_delivery_rate}, Actual: {requester_balance}'',
                                           Print ''  - Sender Address: {requester}'',
                                           Print ''  - Please use scripts/deposit_token.py to add balance''])
                                    (\<lambda>_. raise_io (SystemExit 1))
                             else done_io ()))
                else done_io ()))"

section \<open>Submission\<close>

text \<open>
  One pass through the \<open>try\<close> of \<open>send_marketplace_request\<close>: build, sign, send, each
  of which may raise; \<open>price\<close> is the \<open>value\<close> entry of \<open>tx_args\<close>.
\<close>

definition request_attempt :: "world \<Rightarrow> string \<Rightarrow> int \<Rightarrow> nat \<Rightarrow> event list \<times> string attempt" where
  "request_attempt w marketplace_contract price k =
     (case request_send w k of
        BuildRaises \<Rightarrow> ([BuildTx marketplace_contract ''request'' price], Raised)
      | SignRaises \<Rightarrow> ([BuildTx marketplace_contract ''request'' price, SignTx], Raised)
      | SendRaises \<Rightarrow> ([BuildTx marketplace_contract ''request'' price, SignTx, SendTx], Raised)
      | Sent transaction_digest \<Rightarrow>
          ([BuildTx marketplace_contract ''request'' price, SignTx, SendTx],
           Returned transaction_digest))"

text \<open>
  The dictionary \<open>method_args\<close> that both senders build before their loop (lines 310 to
  317 and 395 to 402). Its entries are evaluated in order: \<open>"0x" + payment_type\<close> raises
  \<open>TypeError\<close> when the payment type has not been set, and \<open>to_checksum_address\<close> may
  reject the address of the priority mech. The result is the checksummed address.
\<close>

definition method_args :: "world \<Rightarrow> MechMarketplaceRequestConfig \<Rightarrow> string io" where
  "method_args w method_args_data =
     (case rc_payment_type method_args_data of
        None \<Rightarrow> raise_io TypeError
      | Some payment_type \<Rightarrow>
          (case to_checksum_address w (rc_priority_mech_address method_args_data) of
             None \<Rightarrow> raise_io ValueError
           | Some priority_mech \<Rightarrow> done_io priority_mech))"

text \<open>
  \<open>send_marketplace_request\<close>: the metadata is pushed to IPFS and the arguments are
  built, both outside of any \<open>try\<close>, so that an exception there leaves the function
  with no attempt made; then the loop runs with the given or default retry count,
  timeout and sleep. The result is the final value of \<open>tries\<close> and the transaction
  digest, or \<open>None\<close>.
\<close>

definition send_marketplace_request ::
  "imported_constants \<Rightarrow> world \<Rightarrow> string \<Rightarrow> int \<Rightarrow> string \<Rightarrow> string \<Rightarrow> MechMarketplaceRequestConfig
     \<Rightarrow> (string \<times> json) list option \<Rightarrow> int \<Rightarrow> int option \<Rightarrow> rat option \<Rightarrow> rat option
     \<Rightarrow> nat \<times> string option io" where
  "send_marketplace_request c w marketplace_contract gas prompt tool method_args_data
       extra_attributes price retries timeout sleep =
     (case push_metadata_to_ipfs w of
        None \<Rightarrow> (0, [IpfsPush], Inl PushError)
      | Some hashes \<Rightarrow>
          (case snd (method_args w method_args_data) of
             Inl e \<Rightarrow>
               (0, [IpfsPush, Print ''  - Prompt uploaded: https://gateway.autonolas.tech/ipfs/{v1_file_hash_hex}''],
                Inl e)
           | Inr priority_mech \<Rightarrow>
               (let retries' = or_default retries (MAX_RETRIES c);
                    timeout' = or_default timeout (TIMEOUT c);
                    sleep' = or_default sleep (WAIT_SLEEP c);
                    deadline = now_timestamp w + timeout'
                in case submission_loop (lapse w) (request_attempt w marketplace_contract price)
                          ''Error occured while sending the transaction: {e}; Retrying in {sleep}''
                          retries' deadline sleep' 0 (now_timestamp w + lapse w 0) of
                     (n, es, r) \<Rightarrow>
                       (n, [IpfsPush, Print ''  - Prompt uploaded: https://gateway.autonolas.tech/ipfs/{v1_file_hash_hex}'']
                           @ es, r))))"

section \<open>Content addressing of the request metadata\<close>

text \<open>
  \<open>json.dump(metadata, f, separators=(",", ":"))\<close> with the default
  \<open>ensure_ascii\<close>: a quote and a backslash are escaped with a backslash, the five
  short escapes are used for backspace, form feed, newline, carriage return and tab,
  any other character outside the range from space to tilde is written as
  \<open>\u00XX\<close> in lower-case hexadecimal.
\<close>

definition hex_digit :: "nat \<Rightarrow> char" where
  "hex_digit n = ''0123456789abcdef'' ! (n mod 16)"

definition json_escape_char :: "char \<Rightarrow> string" where
  "json_escape_char c =
     (let n = (of_char c :: nat) in
      if n = 0x22 then [CHR 0x5C, CHR 0x22]
      else if n = 0x5C then [CHR 0x5C, CHR 0x5C]
      else if n = 0x0A then [CHR 0x5C, CHR ''n'']
      else if n = 0x0D then [CHR 0x5C, CHR ''r'']
      else if n = 0x09 then [CHR 0x5C, CHR ''t'']
      else if n = 0x08 then [CHR 0x5C, CHR ''b'']
      else if n = 0x0C then [CHR 0x5C, CHR ''f'']
      else if n < 0x20 \<or> 0x7E < n then
        [CHR 0x5C, CHR ''u'', CHR ''0'', CHR ''0'', hex_digit (n div 16), hex_digit (n mod 16)]
      else [c])"

definition json_string :: "string \<Rightarrow> string" where
  "json_string s = [CHR 0x22] @ concat (map json_escape_char s) @ [CHR 0x22]"

fun str_nat :: "nat \<Rightarrow> string" where
  "str_nat n = (if n < 10 then [hex_digit n] else str_nat (n div 10) @ [hex_digit (n mod 10)])"

definition str_int :: "int \<Rightarrow> string" where
  "str_int i = (if i < 0 then CHR ''-'' # str_nat (nat (- i)) else str_nat (nat i))"

fun json_dumps :: "json \<Rightarrow> string"
  and dumps_items :: "json list \<Rightarrow> string"
  and dumps_members :: "(string \<times> json) list \<Rightarrow> string" where
  "json_dumps JNull = ''null''"
| "json_dumps (JBool b) = (if b then ''true'' else ''false'')"
| "json_dumps (JInt i) = str_int i"
| "json_dumps (JStr s) = json_string s"
| "json_dumps (JArr xs) = ''['' @ dumps_items xs @ '']''"
| "json_dumps (JObj m) = ''{'' @ dumps_members m @ ''}''"
| "dumps_items [] = []"
| "dumps_items [x] = json_dumps x"
| "dumps_items (x # y # ys) = json_dumps x @ '','' @ dumps_items (y # ys)"
| "dumps_members [] = []"
| "dumps_members [(k, v)] = json_string k @ '':'' @ json_dumps v"
| "dumps_members ((k, v) # y # ys) =
     json_string k @ '':'' @ json_dumps v @ '','' @ dumps_members (y # ys)"

text \<open>\<open>bytes.hex()\<close>: two lower-case hexadecimal digits per byte.\<close>

definition bytes_hex :: "char list \<Rightarrow> string" where
  "bytes_hex bs = concat (map (\<lambda>b. [hex_digit (of_char b div 16), hex_digit (of_char b mod 16)]) bs)"

text \<open>
  The hashing and decoding functions come from the packages \<open>aea\<close>, \<open>multibase\<close> and
  \<open>multicodec\<close>; they are parameters. \<open>IPFSHashOnly_get\<close> is given the contents of the
  file \<open>metadata.json\<close>.
\<close>

record ipfs_tools =
  IPFSHashOnly_get :: "string \<Rightarrow> string"
  multibase_decode :: "string \<Rightarrow> char list"
  multicodec_remove_prefix :: "char list \<Rightarrow> char list"

text \<open>
  \<open>fetch_ipfs_hash\<close>: \<open>uuid4\<close> is the text of the identifier that \<open>uuid.uuid4()\<close> draws in
  this run. The metadata dictionary is \<open>prompt\<close>, \<open>tool\<close>, \<open>nonce\<close>, updated with the
  extra attributes when there are any. The result is the truncated hash with \<open>0x\<close>
  in front, the full hash in hexadecimal, and the bytes of the file.
  The temporary directory and the file itself are not part of the model.
\<close>

definition fetch_ipfs_hash ::
  "ipfs_tools \<Rightarrow> string \<Rightarrow> string \<Rightarrow> string \<Rightarrow> (string \<times> json) list option
     \<Rightarrow> string \<times> string \<times> string" where
  "fetch_ipfs_hash t uuid4 prompt tool extra_attributes =
     (let metadata0 = [(''prompt'', JStr prompt), (''tool'', JStr tool), (''nonce'', JStr uuid4)];
          metadata =
            (case extra_attributes of
               None \<Rightarrow> metadata0
             | Some extra \<Rightarrow> if extra \<noteq> [] then dict_update metadata0 extra else metadata0);
          file_text = json_dumps (JObj metadata);
          v1_file_hash = IPFSHashOnly_get t file_text;
          ipfs_data = file_text;
          cid_bytes = multibase_decode t v1_file_hash;
          multihash_bytes = multicodec_remove_prefix t cid_bytes;
          v1_file_hash_hex = ''f01'' @ bytes_hex multihash_bytes
      in (''0x'' @ drop 9 v1_file_hash_hex, v1_file_hash_hex, ipfs_data))"

section \<open>Off-chain submission and delivery\<close>

text \<open>
  One pass through the \<open>try\<close> of \<open>send_offchain_marketplace_request\<close>: the nonce and the
  request identifier are read from the marketplace contract, the identifier is signed,
  the payload is posted and the answer decoded.
\<close>

definition offchain_attempt :: "world \<Rightarrow> string \<Rightarrow> nat \<Rightarrow> event list \<times> json attempt" where
  "offchain_attempt w marketplace_contract k =
     (case offchain_send w k of
        NonceRaises \<Rightarrow> ([EthCall marketplace_contract ''mapNonces''], Raised)
      | RequestIdRaises \<Rightarrow>
          ([EthCall marketplace_contract ''mapNonces'',
            EthCall marketplace_contract ''getRequestId''], Raised)
      | SignMessageRaises \<Rightarrow>
          ([EthCall marketplace_contract ''mapNonces'',
            EthCall marketplace_contract ''getRequestId'', SignMessage], Raised)
      | PostRaises \<Rightarrow>
          ([EthCall marketplace_contract ''mapNonces'',
            EthCall marketplace_contract ''getRequestId'', SignMessage,
            HttpPost ''http://localhost:8000/send_signed_requests''], Raised)
      | Posted response \<Rightarrow>
          ([EthCall marketplace_contract ''mapNonces'',
            EthCall marketplace_contract ''getRequestId'', SignMessage,
            HttpPost ''http://localhost:8000/send_signed_requests''], Returned response))"

text \<open>
  \<open>send_offchain_marketplace_request\<close>: the hash of the metadata is computed locally,
  the arguments are built as above, and the same loop runs around the attempt.
\<close>

definition send_offchain_marketplace_request ::
  "imported_constants \<Rightarrow> world \<Rightarrow> string \<Rightarrow> string \<Rightarrow> string \<Rightarrow> MechMarketplaceRequestConfig
     \<Rightarrow> (string \<times> json) list option \<Rightarrow> int option \<Rightarrow> rat option \<Rightarrow> rat option
     \<Rightarrow> nat \<times> json option io" where
  "send_offchain_marketplace_request c w marketplace_contract prompt tool method_args_data
       extra_attributes retries timeout sleep =
     (case snd (method_args w method_args_data) of
        Inl e \<Rightarrow>
          (0, [Print ''  - Prompt will shortly be uploaded to: https://gateway.autonolas.tech/ipfs/{v1_file_hash_hex}''],
           Inl e)
      | Inr priority_mech \<Rightarrow>
          (let retries' = or_default retries (MAX_RETRIES c);
               timeout' = or_default timeout (TIMEOUT c);
               sleep' = or_default sleep (WAIT_SLEEP c);
               deadline = now_timestamp w + timeout'
           in case submission_loop (lapse w) (offchain_attempt w marketplace_contract)
                     ''Error occured while sending the offchain request: {e}; Retrying in {sleep}''
                     retries' deadline sleep' 0 (now_timestamp w + lapse w 0) of
                (n, es, r) \<Rightarrow>
                  (n, [Print ''  - Prompt will shortly be uploaded to: https://gateway.autonolas.tech/ipfs/{v1_file_hash_hex}'']
                      @ es, r)))"

text \<open>
  \<open>wait_for_offchain_marketplace_data\<close>: \<open>while True\<close> around one GET. An answer that
  is truthy is returned; an answer that is not leads straight to the next GET; only an
  exception reaches \<open>time.sleep(1)\<close>. The loop has no exit but the \<open>return\<close>, so the
  function is partial: \<open>None\<close> is a run that never returns. \<open>i\<close> counts the requests made
  so far and \<open>done\<close> holds the events so far.
\<close>

partial_function (option) wait_for_offchain_marketplace_data ::
  "(nat \<Rightarrow> poll_outcome) \<Rightarrow> json \<Rightarrow> nat \<Rightarrow> event list \<Rightarrow> (event list \<times> json) option" where
  "wait_for_offchain_marketplace_data fetch request_id i done =
     (case fetch i of
        PollRaises \<Rightarrow>
          wait_for_offchain_marketplace_data fetch request_id (Suc i)
            (done @ [HttpGet ''http://localhost:8000/fetch_offchain_info'' [request_id], Sleep 1])
      | PollAnswer response \<Rightarrow>
          if truthy response
          then Some (done @ [HttpGet ''http://localhost:8000/fetch_offchain_info'' [request_id]],
                     response)
          else wait_for_offchain_marketplace_data fetch request_id (Suc i)
                 (done @ [HttpGet ''http://localhost:8000/fetch_offchain_info'' [request_id]]))"

declare wait_for_offchain_marketplace_data.simps [code]

section \<open>Waiting for the delivery of an on-chain request\<close>

text \<open>
  The members of \<open>ConfirmationType\<close> (declared in \<open>mech_client.interact\<close>) that this
  module names.
\<close>

datatype ConfirmationType = ON_CHAIN | OFF_CHAIN | WAIT_FOR_BOTH

text \<open>
  The list \<open>tasks\<close> of \<open>wait_for_marketplace_data_url\<close> when \<open>_wait_for_tasks\<close> starts,
  with the events of building it. The off-chain branch only prints; the on-chain
  branch creates the one task.
\<close>

definition create_tasks :: "string \<Rightarrow> string \<Rightarrow> ConfirmationType \<Rightarrow> event list \<times> watch list" where
  "create_tasks request_id subgraph confirmation_type =
     (let es1 = (if confirmation_type \<in> set [OFF_CHAIN, WAIT_FOR_BOTH]
                 then [Print ''Off chain to be implemented''] else [])
      in if confirmation_type \<in> set [ON_CHAIN, WAIT_FOR_BOTH]
         then (es1 @ [CreateTask OnChainWatch request_id]
                 @ (if subgraph \<noteq> [] then [Print ''Subgraph to be implemented''] else []),
               [OnChainWatch])
         else (es1, []))"

text \<open>
  \<open>_wait_for_tasks\<close>: \<open>asyncio.wait\<close> raises \<open>ValueError\<close> on an empty list. Otherwise the
  scheduler decides which task completes first (one task at a time); every other task
  is cancelled and the result of the first is returned.
\<close>

definition wait_for_tasks :: "world \<Rightarrow> string \<Rightarrow> watch list \<Rightarrow> string option io" where
  "wait_for_tasks w request_id tasks =
     (if tasks = [] then raise_io ValueError
      else
        (let i = first_completed w tasks mod length tasks;
             finished = tasks ! i;
             unfinished = take i tasks @ drop (Suc i) tasks
         in andthen (emit (map CancelTask unfinished))
              (\<lambda>_. done_io (watch_result w finished request_id))))"

definition wait_for_marketplace_data_url ::
  "world \<Rightarrow> string \<Rightarrow> string \<Rightarrow> ConfirmationType \<Rightarrow> string option io" where
  "wait_for_marketplace_data_url w request_id subgraph confirmation_type =
     (case create_tasks request_id subgraph confirmation_type of
        (es, tasks) \<Rightarrow> andthen (emit es) (\<lambda>_. wait_for_tasks w request_id tasks))"

section \<open>The orchestrator\<close>

text \<open>
  \<open>int.from_bytes(bytes.fromhex(request_id), byteorder="big")\<close>. \<open>bytes.fromhex\<close>
  reads the text two hexadecimal digits at a time, in either case; ASCII white space
  (tab, line feed, vertical tab, form feed, carriage return, space) is skipped before
  a pair and at the end, not inside a pair. Anything else raises \<open>ValueError\<close>: a
  character that is no hexadecimal digit, or a digit without its second.
\<close>

definition hex_value :: "char \<Rightarrow> nat option" where
  "hex_value c =
     (let n = (of_char c :: nat) in
      if 48 \<le> n \<and> n \<le> 57 then Some (n - 48)
      else if 97 \<le> n \<and> n \<le> 102 then Some (n - 87)
      else if 65 \<le> n \<and> n \<le> 70 then Some (n - 55)
      else None)"

definition is_space :: "char \<Rightarrow> bool" where
  "is_space c = ((of_char c :: nat) \<in> set [9, 10, 11, 12, 13, 32])"

fun bytes_fromhex :: "string \<Rightarrow> nat list option" where
  "bytes_fromhex [] = Some []"
| "bytes_fromhex [c] = (if is_space c then Some [] else None)"
| "bytes_fromhex (c # d # cs) =
     (if is_space c then bytes_fromhex (d # cs)
      else
        (case hex_value c of
           None \<Rightarrow> None
         | Some high \<Rightarrow>
             (case hex_value d of
                None \<Rightarrow> None
              | Some low \<Rightarrow>
                  (case bytes_fromhex cs of
                     None \<Rightarrow> None
                   | Some bytes \<Rightarrow> Some ((16 * high + low) # bytes)))))"

definition int_from_bytes :: "nat list \<Rightarrow> nat" where
  "int_from_bytes bytes = foldl (\<lambda>acc b. 256 * acc + b) 0 bytes"

definition request_id_to_int :: "string \<Rightarrow> int io" where
  "request_id_to_int request_id =
     (case bytes_fromhex request_id of
        None \<Rightarrow> raise_io ValueError
      | Some bytes \<Rightarrow> done_io (int (int_from_bytes bytes)))"

text \<open>\<open>obj[key]\<close> on a decoded JSON value.\<close>

definition getitem :: "json \<Rightarrow> string \<Rightarrow> json io" where
  "getitem obj key =
     (case obj of
        JObj m \<Rightarrow> (case map_of m key of None \<Rightarrow> raise_io KeyError | Some v \<Rightarrow> done_io v)
      | _ \<Rightarrow> raise_io TypeError)"

text \<open>
  \<open>marketplace_interact\<close> is given in four parts, in the order of the source.
  Lines 751 to 782, the price: without prepayment the price is the max delivery rate,
  and a token mech has the allowance approved and the price set to zero; with
  prepayment the price is zero and the prepaid balance is checked. The result \<open>None\<close>
  stands for the \<open>return None\<close> after a failed approval.
\<close>

definition resolve_price ::
  "world \<Rightarrow> int \<Rightarrow> bool \<Rightarrow> string \<Rightarrow> int \<Rightarrow> string \<Rightarrow> int option io" where
  "resolve_price w chain use_prepaid payment_type max_delivery_rate mech_payment_balance_tracker =
     (if \<not> use_prepaid then
        (let price = max_delivery_rate in
         if payment_type = PAYMENT_TYPE_TOKEN then
           andthen (emit [Print ''Token Mech detected, approving wrapped token for price payment...''])
             (\<lambda>_. case map_of CHAIN_TO_WRAPPED_TOKEN chain of
                     None \<Rightarrow> raise_io KeyError
                   | Some wxdai \<Rightarrow>
                       andthen (approve_price_tokens w wxdai mech_payment_balance_tracker price)
                         (\<lambda>approve_tx.
                            if approve_tx = [] then
                              andthen (emit [Print ''Unable to approve allowance''])
                                (\<lambda>_. done_io None)
                            else
                              andthen
                                (emit [Print ''  - Transaction sent: {transaction_url_formatted}'',
                                       Print ''  - Waiting for transaction receipt...'',
                                       WaitReceipt approve_tx])
                                (\<lambda>_. done_io (Some 0))))
         else done_io (Some price))
      else
        andthen (emit [Print ''Prepaid request to be used, skipping payment''])
          (\<lambda>_. andthen
                  (check_prepaid_balances w mech_payment_balance_tracker payment_type
                     max_delivery_rate)
                  (\<lambda>_. done_io (Some 0))))"

text \<open>
  Lines 784 to 798, the subscription: for a Nevermined mech the requester's
  subscription balance is compared with the current \<open>price\<close>, and the price becomes
  zero.
\<close>

definition check_subscription :: "world \<Rightarrow> string \<Rightarrow> string \<Rightarrow> int \<Rightarrow> int io" where
  "check_subscription w payment_type mech_payment_balance_tracker price =
     (if payment_type = PAYMENT_TYPE_NVM then
        andthen (emit [Print ''Nevermined Mech detected, subscription credits to be used''])
          (\<lambda>_. let requester = crypto_address w in
                andthen
                  (fetch_requester_nvm_subscription_balance w requester mech_payment_balance_tracker)
                  (\<lambda>requester_balance.
                     if requester_balance < price then
                       andthen
                         (emit [Print ''  - Sender Subscription balance low. Needed: {price}, Actual: {requester_balance}'',
                                Print ''  - Sender Address: {requester}''])
                         (\<lambda>_. raise_io (SystemExit 1))
                     else done_io 0))
      else done_io price)"

text \<open>
  Lines 800 to 853, the on-chain request: send, read the request identifier from the
  receipt, wait for the delivery, fetch the data.
\<close>

definition submit_onchain ::
  "imported_constants \<Rightarrow> world \<Rightarrow> mech_config \<Rightarrow> string \<Rightarrow> string \<Rightarrow> string
     \<Rightarrow> MechMarketplaceRequestConfig \<Rightarrow> (string \<times> json) list option \<Rightarrow> int
     \<Rightarrow> ConfirmationType \<Rightarrow> int option \<Rightarrow> rat option \<Rightarrow> rat option \<Rightarrow> json option io" where
  "submit_onchain c w mech_config marketplace_contract prompt tool request_config
       extra_attributes price confirmation_type retries timeout sleep =
     andthen (emit [Print ''Sending Mech Marketplace request...''])
       (\<lambda>_. andthen
               (snd (send_marketplace_request c w marketplace_contract (gas_limit mech_config)
                       prompt tool request_config extra_attributes price retries timeout sleep))
               (\<lambda>transaction_digest.
                  case transaction_digest of
                    None \<Rightarrow> andthen (emit [Print ''Unable to send request'']) (\<lambda>_. done_io None)
                  | Some tx_hash \<Rightarrow>
                      if tx_hash = [] then
                        andthen (emit [Print ''Unable to send request'']) (\<lambda>_. done_io None)
                      else
                        (let request_id = watch_for_marketplace_request_id w tx_hash
                         in andthen
                              (emit [Print ''  - Transaction sent: {transaction_url_formatted}'',
                                     Print ''  - Waiting for transaction receipt...'',
                                     WatchRequestId tx_hash])
                              (\<lambda>_. andthen (request_id_to_int request_id)
                                      (\<lambda>request_id_int.
                                         andthen
                                           (emit [Print ''  - Created on-chain request with ID {request_id_int}'',
                                                  Print []])
                                           (\<lambda>_. andthen
                                                   (wait_for_marketplace_data_url w request_id
                                                      (subgraph_url mech_config) confirmation_type)
                                                   (\<lambda>data_url.
                                                      case data_url of
                                                        None \<Rightarrow> done_io None
                                                      | Some url \<Rightarrow>
                                                          if url = [] then done_io None
                                                          else
                                                            (let data = http_get_json w ''{data_url}/{request_id_int}''
                                                                          [JStr url, JInt request_id_int]
                                                             in andthen
                                                                  (emit [Print ''  - Data arrived: {data_url}'',
                                                                         HttpGet ''{data_url}/{request_id_int}''
                                                                           [JStr url, JInt request_id_int],
                                                                         Print ''  - Data from agent:'',
                                                                         Print ''{json.dumps(data, indent=2)}''])
                                                                  (\<lambda>_. done_io (Some data))))))))))"

text \<open>
  Lines 855 to 888, the off-chain request: send, take the request identifier from the
  answer, poll for the delivery, fetch the data. \<open>NeverReturns\<close> is not an exception:
  it marks a call whose poll loop runs for ever, with the events up to the loop.
\<close>

datatype 'a run = NeverReturns "event list" | Run "'a io"

definition submit_offchain ::
  "imported_constants \<Rightarrow> world \<Rightarrow> string \<Rightarrow> string \<Rightarrow> string
     \<Rightarrow> MechMarketplaceRequestConfig \<Rightarrow> (string \<times> json) list option
     \<Rightarrow> int option \<Rightarrow> rat option \<Rightarrow> rat option \<Rightarrow> json option run" where
  "submit_offchain c w marketplace_contract prompt tool request_config
       extra_attributes retries timeout sleep =
     (case andthen (emit [Print ''Sending Offchain Mech Marketplace request...''])
             (\<lambda>_. snd (send_offchain_marketplace_request c w marketplace_contract prompt tool
                          request_config extra_attributes retries timeout sleep)) of
        (es, Inl e) \<Rightarrow> Run (es, Inl e)
      | (es, Inr None) \<Rightarrow> Run (es, Inr None)
      | (es, Inr (Some response)) \<Rightarrow>
          if \<not> truthy response then Run (es, Inr None)
          else
            (case getitem response ''request_id'' of
               (_, Inl e) \<Rightarrow> Run (es, Inl e)
             | (_, Inr request_id) \<Rightarrow>
                 (case wait_for_offchain_marketplace_data (offchain_fetch w) request_id 0
                         (es @ [Print ''  - Created off-chain request with ID {request_id}'',
                                Print [],
                                Print ''Waiting for Offchain Mech Marketplace deliver...'']) of
                    None \<Rightarrow>
                      NeverReturns
                        (es @ [Print ''  - Created off-chain request with ID {request_id}'',
                               Print [],
                               Print ''Waiting for Offchain Mech Marketplace deliver...''])
                  | Some (es', data) \<Rightarrow>
                      if truthy data then
                        Run (andthen (es', Inr ())
                               (\<lambda>_. andthen (getitem data ''task_result'')
                                       (\<lambda>task_result.
                                          (let url = ''https://gateway.autonolas.tech/ipfs/f01701220{task_result}/{request_id}'';
                                               data' = http_get_json w url [task_result, request_id]
                                           in andthen
                                                (emit [Print ''  - Data arrived: {data_url}'',
                                                       HttpGet url [task_result, request_id],
                                                       Print ''  - Data from agent:'',
                                                       Print ''{json.dumps(data, indent=2)}''])
                                                (\<lambda>_. done_io (Some data'))))))
                      else Run (es', Inr None))))"

text \<open>
  Lines 672 to 680: a given priority mech replaces the default mech address, and the
  marketplace address of the chain configuration replaces the default one; the source
  prints a notice when it does so. Line 691: the key path, or the default for \<open>None\<close>
  and for the empty text.
\<close>

definition custom_config ::
  "MechMarketplaceRequestConfig \<Rightarrow> string option \<Rightarrow> string \<Rightarrow> MechMarketplaceRequestConfig" where
  "custom_config defaults priority_mech mech_marketplace_contract =
     (case priority_mech of
        None \<Rightarrow> defaults
      | Some priority_mech_address \<Rightarrow>
          defaults\<lparr>rc_priority_mech_address := priority_mech_address,
                   rc_mech_marketplace_contract := mech_marketplace_contract\<rparr>)"

definition custom_notice :: "string option \<Rightarrow> event list" where
  "custom_notice priority_mech =
     (case priority_mech of None \<Rightarrow> [] | Some _ \<Rightarrow> [Print ''Custom Mech detected''])"

definition key_path :: "imported_constants \<Rightarrow> string option \<Rightarrow> string" where
  "key_path c private_key_path =
     (case private_key_path of
        None \<Rightarrow> PRIVATE_KEY_FILE_PATH c
      | Some path \<Rightarrow> if path = [] then PRIVATE_KEY_FILE_PATH c else path)"

text \<open>
  Lines 662 to 798 of \<open>marketplace_interact\<close>, everything before the request is sent.
  \<open>mech_config\<close> is the result of \<open>get_mech_config(chain_config)\<close>. The result \<open>None\<close> stands
  for a \<open>return None\<close>; otherwise it is the marketplace contract address, the request
  configuration, the tool and the price to attach.
\<close>

definition preflight ::
  "imported_constants \<Rightarrow> world \<Rightarrow> mech_config \<Rightarrow> string option \<Rightarrow> bool
     \<Rightarrow> string option \<Rightarrow> string option
     \<Rightarrow> (string \<times> MechMarketplaceRequestConfig \<times> string \<times> int) option io" where
  "preflight c w mech_config priority_mech use_prepaid tool private_key_path =
     (let mech_marketplace_contract = mc_mech_marketplace_contract mech_config;
          chain_id = chain_id (ledger_config mech_config)
      in if mech_marketplace_contract = ADDRESS_ZERO then
           andthen (emit [Print ''Mech Marketplace not yet supported on {chain_config}''])
             (\<lambda>_. done_io None)
         else
           (case map_of CHAIN_TO_DEFAULT_MECH_MARKETPLACE_REQUEST_CONFIG chain_id of
              None \<Rightarrow> raise_io KeyError
            | Some defaults \<Rightarrow>
                (let config_values = custom_config defaults priority_mech mech_marketplace_contract;
                     es0 = custom_notice priority_mech;
                     contract_address = rc_mech_marketplace_contract config_values;
                     private_key_path' = key_path c private_key_path;
                     signatures = get_event_signatures w (marketplace_abi w)
                 in andthen (emit es0)
                      (\<lambda>_. if \<not> path_exists w private_key_path' then raise_io FileNotFoundError
                           else
                             andthen
                               (emit [WssConnect (wss_endpoint mech_config),
                                      Print ''Fetching Mech Info...''])
                               (\<lambda>_. andthen
                                       (fetch_mech_info w contract_address
                                          (rc_priority_mech_address config_values))
                                       (\<lambda>(payment_type, service_id, max_delivery_rate,
                                           mech_payment_balance_tracker, mech_contract).
                                          (let request_config =
                                                 config_values\<lparr>rc_delivery_rate := Some max_delivery_rate,
                                                               rc_payment_type := Some payment_type\<rparr>;
                                               tool' = verify_or_retrieve_tool w service_id tool
                                           in andthen
                                                (emit [VerifyTool,
                                                       RegisterHandlers contract_address
                                                         (fst signatures) (snd signatures)])
                                                (\<lambda>_. andthen
                                                        (resolve_price w chain_id use_prepaid payment_type
                                                           max_delivery_rate mech_payment_balance_tracker)
                                                        (\<lambda>price.
                                                           case price of
                                                             None \<Rightarrow> done_io None
                                                           | Some price \<Rightarrow>
                                                               andthen
                                                                 (check_subscription w payment_type
                                                                    mech_payment_balance_tracker price)
                                                                 (\<lambda>price.
                                                                    done_io
                                                                      (Some (contract_address,
                                                                             request_config, tool',
                                                                             price))))))))))))"

text \<open>
  The whole of \<open>marketplace_interact\<close>: the part above, then the on-chain or the
  off-chain request.
\<close>

definition marketplace_interact ::
  "imported_constants \<Rightarrow> world \<Rightarrow> mech_config \<Rightarrow> string \<Rightarrow> string option \<Rightarrow> bool \<Rightarrow> bool
     \<Rightarrow> string option \<Rightarrow> (string \<times> json) list option \<Rightarrow> string option
     \<Rightarrow> ConfirmationType \<Rightarrow> int option \<Rightarrow> rat option \<Rightarrow> rat option \<Rightarrow> json option run" where
  "marketplace_interact c w mech_config prompt priority_mech use_prepaid use_offchain tool
       extra_attributes private_key_path confirmation_type retries timeout sleep =
     (case preflight c w mech_config priority_mech use_prepaid tool private_key_path of
        (es, Inl e) \<Rightarrow> Run (es, Inl e)
      | (es, Inr None) \<Rightarrow> Run (es, Inr None)
      | (es, Inr (Some (contract_address, request_config, tool', price))) \<Rightarrow>
          if \<not> use_offchain then
            Run (andthen (emit es)
                   (\<lambda>_. submit_onchain c w mech_config contract_address prompt tool'
                           request_config extra_attributes price confirmation_type
                           retries timeout sleep))
          else
            (case submit_offchain c w contract_address prompt tool' request_config
                    extra_attributes retries timeout sleep of
               NeverReturns es' \<Rightarrow> NeverReturns (es @ es')
             | Run (es', r) \<Rightarrow> Run (es @ es', r)))"

text \<open>The events of a call, whether it returns or not, and its result when it returns.\<close>

fun trace :: "'a run \<Rightarrow> event list" where
  "trace (NeverReturns es) = es"
| "trace (Run (es, r)) = es"

fun returned :: "'a run \<Rightarrow> (failure + 'a) option" where
  "returned (NeverReturns es) = None"
| "returned (Run (es, r)) = Some r"

text \<open>
  The events that submit something: building, signing or sending a transaction, signing
  a message, posting a request. And the values attached to the request transactions of
  a trace.
\<close>

fun is_submission :: "event \<Rightarrow> bool" where
  "is_submission (BuildTx a m v) = True"
| "is_submission SignTx = True"
| "is_submission SendTx = True"
| "is_submission SignMessage = True"
| "is_submission (HttpPost u) = True"
| "is_submission e = False"

fun request_values :: "event list \<Rightarrow> int list" where
  "request_values [] = []"
| "request_values (BuildTx a m v # es) =
     (if m = ''request'' then v # request_values es else request_values es)"
| "request_values (e # es) = request_values es"

section \<open>Sample collaborators\<close>

text \<open>
  Concrete values on which the functions above are run in the examples below: the
  constants as the package sets them, a configuration for chain 100, and a world whose
  mech has the given payment type and max delivery rate 5, where the requester has
  deposited \<open>deposited\<close> with the balance tracker and holds \<open>held\<close> subscription units,
  and where the outcome of the \<open>k\<close>-th submission is \<open>sends k\<close>. In that world the
  metadata is pushed, every address is accepted, the clock reads 1000 when a deadline is
  computed and every lapse is half a second.
\<close>

definition sample_constants :: imported_constants where
  "sample_constants =
     \<lparr>MAX_RETRIES = 3, TIMEOUT = 60, WAIT_SLEEP = 3,
      PRIVATE_KEY_FILE_PATH = ''ethereum_private_key.txt''\<rparr>"

definition sample_config :: "int \<Rightarrow> mech_config" where
  "sample_config chain =
     \<lparr>ledger_config = \<lparr>chain_id = chain\<rparr>,
      mc_mech_marketplace_contract = ''0x735FAAb1c4Ec41128c367AFb5c3baC73509f70bB'',
      wss_endpoint = ''wss://rpc'',
      gas_limit = 100000,
      subgraph_url = []\<rparr>"

definition sample_world :: "string \<Rightarrow> int \<Rightarrow> int \<Rightarrow> (nat \<Rightarrow> send_outcome) \<Rightarrow> world" where
  "sample_world payment deposited held sends =
     \<lparr>crypto_address = ''0xRequester'',
      path_exists = (\<lambda>_. True),
      marketplace_abi = [],
      calculate_topic_id = (\<lambda>_. []),
      paymentType = (\<lambda>_. payment),
      maxDeliveryRate = (\<lambda>_. 5),
      serviceId = (\<lambda>_. 1),
      mapPaymentTypeBalanceTrackers = (\<lambda>_ _. ''0xTracker''),
      mapRequesterBalances = (\<lambda>_ _. deposited),
      token_balanceOf = (\<lambda>_ _. 9),
      subscriptionNFT = (\<lambda>_. ''0xSubscription''),
      subscriptionTokenId = (\<lambda>_. 7),
      nft_balanceOf = (\<lambda>_ _ _. held),
      verify_or_retrieve_tool = (\<lambda>_ _. ''openai-gpt-4''),
      approve_send = Sent ''0xa1'',
      push_metadata_to_ipfs = Some (''0xab'', ''f01701220ab''),
      to_checksum_address = (\<lambda>address. Some address),
      now_timestamp = 1000,
      lapse = (\<lambda>k. 1 / 2),
      request_send = sends,
      offchain_send = (\<lambda>_. Posted (JObj [(''request_id'', JInt 42)])),
      watch_for_marketplace_request_id = (\<lambda>_. ''2a''),
      first_completed = (\<lambda>_. 0),
      watch_result = (\<lambda>_ _. Some ''https://gateway/ipfs/f01701220ab''),
      offchain_fetch = (\<lambda>k. if k = 0 then PollAnswer (JObj []) else
                               PollAnswer (JObj [(''task_result'', JStr ''ab'')])),
      http_get_json = (\<lambda>_ _. JObj [(''result'', JStr ''done'')])\<rparr>"

definition always_sent :: "nat \<Rightarrow> send_outcome" where
  "always_sent k = Sent ''0xd1''"

definition never_sent :: "nat \<Rightarrow> send_outcome" where
  "never_sent k = SendRaises"

definition second_sent :: "nat \<Rightarrow> send_outcome" where
  "second_sent k = (if k = 2 then Sent ''0xd2'' else SendRaises)"

definition second_posted :: "nat \<Rightarrow> offchain_outcome" where
  "second_posted k = (if k = 2 then Posted (JObj [(''request_id'', JInt 42)]) else PostRaises)"

text \<open>
  Two fetch endpoints: one answers the first request with an empty object and the
  second with a result, the other fails on the first request and answers the second.
\<close>

definition empty_then_data :: "nat \<Rightarrow> poll_outcome" where
  "empty_then_data k =
     (if k = 0 then PollAnswer (JObj []) else PollAnswer (JObj [(''task_result'', JStr ''ab'')]))"

definition raise_then_data :: "nat \<Rightarrow> poll_outcome" where
  "raise_then_data k =
     (if k = 0 then PollRaises else PollAnswer (JObj [(''task_result'', JStr ''ab'')]))"

text \<open>
  Stand-ins for the three library functions of \<open>fetch_ipfs_hash\<close>: the hash of a file is
  its content, decoding changes nothing, the prefix that is removed is two bytes.
\<close>

definition sample_tools :: ipfs_tools where
  "sample_tools =
     \<lparr>IPFSHashOnly_get = (\<lambda>contents. contents),
      multibase_decode = (\<lambda>text. text),
      multicodec_remove_prefix = drop 2\<rparr>"

definition sample_defaults :: MechMarketplaceRequestConfig where
  "sample_defaults =
     \<lparr>rc_mech_marketplace_contract = ''0x735FAAb1c4Ec41128c367AFb5c3baC73509f70bB'',
      rc_priority_mech_address = ''0x478ad20eD958dCC5AD4ABa6F4E4cc51e07a840E4'',
      rc_response_timeout = 300,
      rc_payment_data = ''0x'',
      rc_delivery_rate = None,
      rc_payment_type = None\<rparr>"

definition sample_request_config :: MechMarketplaceRequestConfig where
  "sample_request_config =
     \<lparr>rc_mech_marketplace_contract = ''0x735FAAb1c4Ec41128c367AFb5c3baC73509f70bB'',
      rc_priority_mech_address = ''0x478ad20eD958dCC5AD4ABa6F4E4cc51e07a840E4'',
      rc_response_timeout = 300,
      rc_payment_data = ''0x'',
      rc_delivery_rate = Some 5,
      rc_payment_type = Some PAYMENT_TYPE_NATIVE\<rparr>"

section \<open>Facts about the retry loop\<close>

lemma test_time_shift:
  fixes S :: rat
  assumes "Suc t < k"
  shows "now + took (Suc t) + S + sum took {Suc (Suc t)..<k} + of_nat (k - Suc (Suc t)) * S
         = now + sum took {Suc t..<k} + of_nat (k - Suc t) * S"
proof -
  have s: "sum took {Suc t..<k} = took (Suc t) + sum took {Suc (Suc t)..<k}"
    using assms by (simp add: sum.atLeast_Suc_lessThan)
  have d: "k - Suc t = Suc (k - Suc (Suc t))" using assms by arith
  show ?thesis unfolding s d by (simp add: algebra_simps)
qed

lemma submission_loop_props:
  fixes S :: rat
  shows "submission_loop took body msg R D S t now = (n, es, r) \<Longrightarrow>
     t \<le> n
     \<and> (\<forall>k. t < k \<and> k \<le> n \<longrightarrow>
            int k \<le> R \<and> now + sum took {Suc t..<k} + of_nat (k - Suc t) * S < D)
     \<and> (\<forall>k x. t < k \<and> k \<le> n \<and> snd (body k) = Returned x \<longrightarrow> k = n \<and> r = Inr (Some x))
     \<and> (\<forall>x. r = Inr (Some x) \<longrightarrow> t < n \<and> snd (body n) = Returned x)
     \<and> (\<forall>e. r = Inl e \<longrightarrow> S < 0)
     \<and> (r = Inr None \<longrightarrow>
            \<not> (int n < R \<and> now + sum took {Suc t..<Suc n} + of_nat (Suc n - Suc t) * S < D))"
proof (induction took body msg R D S t now arbitrary: n es r rule: submission_loop.induct)
  case (1 took body msg retries deadline sleep tries now)
  note unfold = submission_loop.simps[of took body msg retries deadline sleep tries now]
  show ?case
  proof (cases "int tries < retries \<and> now < deadline")
    case False
    with "1.prems" show ?thesis by (auto simp: unfold)
  next
    case go: True
    obtain es1 a where b: "body (Suc tries) = (es1, a)" by (cases "body (Suc tries)")
    show ?thesis
    proof (cases a)
      case (Returned x)
      with go b "1.prems" show ?thesis
        by (auto simp: unfold less_Suc_eq_le dest: le_antisym)
    next
      case Raised
      show ?thesis
      proof (cases "sleep < 0")
        case True
        with go b Raised "1.prems" show ?thesis
          by (auto simp: unfold dest: le_antisym)
      next
        case False
        let ?now' = "now + took (Suc tries) + sleep"
        obtain n' es' r' where
          rec: "submission_loop took body msg retries deadline sleep (Suc tries) ?now'
                = (n', es', r')"
          using prod_cases3 by blast
        from go b Raised False rec "1.prems" have eqs: "n = n'" "r = r'"
          by (auto simp: unfold)
        have ih: "Suc tries \<le> n'
          \<and> (\<forall>k. Suc tries < k \<and> k \<le> n' \<longrightarrow>
                 int k \<le> retries
                 \<and> ?now' + sum took {Suc (Suc tries)..<k} + of_nat (k - Suc (Suc tries)) * sleep
                     < deadline)
          \<and> (\<forall>k x. Suc tries < k \<and> k \<le> n' \<and> snd (body k) = Returned x
                 \<longrightarrow> k = n' \<and> r' = Inr (Some x))
          \<and> (\<forall>x. r' = Inr (Some x) \<longrightarrow> Suc tries < n' \<and> snd (body n') = Returned x)
          \<and> (\<forall>e. r' = Inl e \<longrightarrow> sleep < 0)
          \<and> (r' = Inr None \<longrightarrow>
                 \<not> (int n' < retries
                    \<and> ?now' + sum took {Suc (Suc tries)..<Suc n'}
                         + of_nat (Suc n' - Suc (Suc tries)) * sleep < deadline))"
          using "1.IH"[OF go b[symmetric] Raised False rec] .
        have first: "int (Suc tries) \<le> retries" "now < deadline"
          "snd (body (Suc tries)) = Raised"
          using go b Raised by auto
        have split_k: "k = Suc tries \<or> Suc tries < k" if "tries < k" for k
          using that by arith
        have a1: "tries \<le> n'" using ih by simp
        have a2: "\<forall>k. tries < k \<and> k \<le> n' \<longrightarrow>
                    int k \<le> retries
                    \<and> now + sum took {Suc tries..<k} + of_nat (k - Suc tries) * sleep < deadline"
        proof (intro allI impI)
          fix k assume k: "tries < k \<and> k \<le> n'"
          show "int k \<le> retries
                \<and> now + sum took {Suc tries..<k} + of_nat (k - Suc tries) * sleep < deadline"
          proof (cases "k = Suc tries")
            case True
            then show ?thesis using first by simp
          next
            case False
            then have lt: "Suc tries < k" using k by arith
            have "int k \<le> retries
                  \<and> ?now' + sum took {Suc (Suc tries)..<k} + of_nat (k - Suc (Suc tries)) * sleep
                      < deadline"
              using ih lt k by blast
            then show ?thesis unfolding test_time_shift[OF lt] .
          qed
        qed
        have a3: "\<forall>k x. tries < k \<and> k \<le> n' \<and> snd (body k) = Returned x
                    \<longrightarrow> k = n' \<and> r' = Inr (Some x)"
          using ih first split_k by (metis attempt.distinct(1))
        have a4: "\<forall>x. r' = Inr (Some x) \<longrightarrow> tries < n' \<and> snd (body n') = Returned x"
          using ih by auto
        have a5: "\<forall>e. r' = Inl e \<longrightarrow> sleep < 0" using ih by simp
        have lt': "Suc tries < Suc n'" using ih by simp
        have a6: "r' = Inr None \<longrightarrow>
                    \<not> (int n' < retries
                       \<and> now + sum took {Suc tries..<Suc n'} + of_nat (Suc n' - Suc tries) * sleep
                           < deadline)"
          using ih unfolding test_time_shift[OF lt'] by blast
        show ?thesis unfolding eqs using a1 a2 a3 a4 a5 a6 by blast
      qed
    qed
  qed
qed

lemma test_time_mono:
  fixes S :: rat
  assumes "0 \<le> S" and "\<forall>i. 0 \<le> took i"
  shows "now \<le> now + sum took {Suc t..<k} + of_nat (k - Suc t) * S"
proof -
  have "0 \<le> sum took {Suc t..<k}" using assms(2) by (simp add: sum_nonneg)
  moreover have "0 \<le> of_nat (k - Suc t) * S" using assms(1) by simp
  ultimately show ?thesis by simp
qed

lemma submission_loop_first_success:
  fixes S :: rat
  assumes S: "0 \<le> S" and took: "\<forall>i. 0 \<le> took i"
  shows "t < k \<Longrightarrow> int k \<le> R
     \<Longrightarrow> now + sum took {Suc t..<k} + of_nat (k - Suc t) * S < D
     \<Longrightarrow> \<forall>j. t < j \<and> j < k \<longrightarrow> snd (body j) = Raised
     \<Longrightarrow> snd (body k) = Returned x
     \<Longrightarrow> \<exists>es'. submission_loop took body msg R D S t now = (k, es' @ fst (body k), Inr (Some x))"
proof (induction "k - Suc t" arbitrary: t now)
  case 0
  then have k: "k = Suc t" by arith
  have now: "now < D" using "0.prems"(3) unfolding k by simp
  have R: "int t < R" using "0.prems"(2) unfolding k by simp
  obtain es1 where b: "body (Suc t) = (es1, Returned x)"
    using "0.prems"(5) unfolding k by (cases "body (Suc t)") simp
  have "submission_loop took body msg R D S t now = (k, [] @ fst (body k), Inr (Some x))"
    unfolding k using now R b by (simp add: submission_loop.simps)
  then show ?case by blast
next
  case (Suc d)
  then have lt: "Suc t < k" by arith
  have le: "now \<le> now + sum took {Suc t..<k} + of_nat (k - Suc t) * S"
    using test_time_mono[OF S took] .
  have now: "now < D" using le Suc.prems(3) by simp
  have R: "int t < R" using Suc.prems(1,2) by simp
  have "snd (body (Suc t)) = Raised" using Suc.prems(4) lt by simp
  then obtain es1 where b: "body (Suc t) = (es1, Raised)"
    by (cases "body (Suc t)") simp
  let ?now' = "now + took (Suc t) + S"
  have d: "d = k - Suc (Suc t)" using Suc.hyps(2) by arith
  have time': "?now' + sum took {Suc (Suc t)..<k} + of_nat (k - Suc (Suc t)) * S < D"
    unfolding test_time_shift[OF lt] using Suc.prems(3) .
  have raised': "\<forall>j. Suc t < j \<and> j < k \<longrightarrow> snd (body j) = Raised"
    using Suc.prems(4) by simp
  from Suc.hyps(1)[OF d lt Suc.prems(2) time' raised' Suc.prems(5)] obtain es' where
    rec: "submission_loop took body msg R D S (Suc t) ?now' = (k, es' @ fst (body k), Inr (Some x))"
    by blast
  have "submission_loop took body msg R D S t now
        = (k, (es1 @ [Print msg, Sleep S] @ es') @ fst (body k), Inr (Some x))"
    using now R b S rec by (simp add: submission_loop.simps[of took body msg R D S t now])
  then show ?case by blast
qed

lemma submission_loop_count:
  fixes S :: rat
  shows "submission_loop took body msg R D S t now = (n, es, r)
         \<Longrightarrow> \<forall>k. length (filter P (fst (body k))) = 1
         \<Longrightarrow> \<not> P (Print msg) \<Longrightarrow> \<not> P (Sleep S)
         \<Longrightarrow> length (filter P es) = n - t \<and> t \<le> n"
proof (induction took body msg R D S t now arbitrary: n es r rule: submission_loop.induct)
  case (1 took body msg retries deadline sleep tries now)
  note unfold = submission_loop.simps[of took body msg retries deadline sleep tries now]
  note run = "1.prems"(1) and one = "1.prems"(2) and quiet = "1.prems"(3,4)
  show ?case
  proof (cases "int tries < retries \<and> now < deadline")
    case False
    with run show ?thesis by (auto simp: unfold)
  next
    case go: True
    obtain es1 a where b: "body (Suc tries) = (es1, a)" by (cases "body (Suc tries)")
    have c1: "length (filter P es1) = 1" using one b by (metis fst_conv)
    show ?thesis
    proof (cases a)
      case (Returned x)
      with go b c1 run show ?thesis by (auto simp: unfold)
    next
      case Raised
      show ?thesis
      proof (cases "sleep < 0")
        case True
        with go b c1 Raised run quiet show ?thesis by (auto simp: unfold)
      next
        case False
        let ?now' = "now + took (Suc tries) + sleep"
        obtain n' es' r' where
          rec: "submission_loop took body msg retries deadline sleep (Suc tries) ?now'
                = (n', es', r')"
          using prod_cases3 by blast
        have ih: "length (filter P es') = n' - Suc tries \<and> Suc tries \<le> n'"
          using "1.IH"[OF go b[symmetric] Raised False rec one quiet] .
        have "es = es1 @ [Print msg, Sleep sleep] @ es'" "n = n'"
          using go b Raised False rec run by (auto simp: unfold)
        then show ?thesis using ih c1 quiet by auto
      qed
    qed
  qed
qed

lemma attempts_time_bound:
  fixes T B :: rat
  assumes B: "0 < B" and took: "\<forall>i. 0 \<le> took i"
    and late: "\<forall>k. 0 < k \<and> k \<le> n \<longrightarrow>
                 start + took 0 + sum took {Suc 0..<k} + of_nat (k - Suc 0) * B < start + T"
  shows "n \<le> nat \<lceil>T / B\<rceil>"
proof (cases n)
  case 0
  then show ?thesis by simp
next
  case (Suc m)
  have nm: "n - Suc 0 = m" using Suc by simp
  have "start + took 0 + sum took {Suc 0..<n} + of_nat (n - Suc 0) * B < start + T"
    using late Suc by blast
  moreover have "0 \<le> took 0" using took by simp
  moreover have "0 \<le> sum took {Suc 0..<n}" using took by (simp add: sum_nonneg)
  ultimately have "of_nat m * B < T" unfolding nm by linarith
  then have "of_nat m < T / B" using B by (simp add: pos_less_divide_eq)
  also have "T / B \<le> of_int \<lceil>T / B\<rceil>" by simp
  finally have "int m < \<lceil>T / B\<rceil>" by (metis of_int_less_iff of_int_of_nat_eq)
  then show ?thesis using Suc by simp
qed

lemma sum_from_start:
  fixes f :: "nat \<Rightarrow> rat"
  assumes "0 < k"
  shows "f 0 + sum f {Suc 0..<k} = sum f {..<k}"
  using assms by (simp add: lessThan_atLeast0 sum.atLeast_Suc_lessThan)


lemma test_time_from_start:
  fixes T B :: rat
  assumes "0 < k"
  shows "(start + took 0 + sum took {Suc 0..<k} + of_nat (k - Suc 0) * B < start + T)
         = (sum took {..<k} + of_nat (k - 1) * B < T)"
proof -
  have e: "took 0 + sum took {Suc 0..<k} = sum took {..<k}" using sum_from_start[OF assms] .
  have "start + took 0 + sum took {Suc 0..<k} + of_nat (k - Suc 0) * B
        = start + (sum took {..<k} + of_nat (k - Suc 0) * B)"
    using e by linarith
  then show ?thesis unfolding One_nat_def by (simp only: add_less_cancel_left)
qed

lemma submission_loop_budget:
  fixes T B :: rat
  assumes B: "0 < B" and took: "\<forall>i. 0 \<le> took i"
    and one: "\<forall>k. length (filter P (fst (body k))) = 1"
    and quiet: "\<not> P (Print msg)" "\<not> P (Sleep B)"
    and run: "submission_loop took body msg R (start + T) B 0 (start + took 0) = (n, es, r)"
  shows "n \<le> nat \<lceil>T / B\<rceil> \<and> int n \<le> max 0 R \<and> length (filter P es) = n
       \<and> (\<forall>k. 0 < k \<and> k \<le> n \<longrightarrow> sum took {..<k} + of_nat (k - 1) * B < T)
       \<and> (\<forall>k x. 0 < k \<and> k \<le> n \<and> snd (body k) = Returned x \<longrightarrow> k = n \<and> r = Inr (Some x))
       \<and> (\<forall>k x. 0 < k \<and> int k \<le> R \<and> sum took {..<k} + of_nat (k - 1) * B < T
                \<and> (\<forall>j. 0 < j \<and> j < k \<longrightarrow> snd (body j) = Raised)
                \<and> snd (body k) = Returned x
              \<longrightarrow> n = k \<and> r = Inr (Some x) \<and> (\<exists>es'. es = es' @ fst (body k)))"
proof -
  note props = submission_loop_props[OF run]
  have late: "\<forall>k. 0 < k \<and> k \<le> n \<longrightarrow>
                start + took 0 + sum took {Suc 0..<k} + of_nat (k - Suc 0) * B < start + T"
    using props by blast
  have n1: "n \<le> nat \<lceil>T / B\<rceil>" using attempts_time_bound[OF B took late] .
  have n2: "int n \<le> max 0 R"
  proof (cases n)
    case 0
    then show ?thesis by simp
  next
    case (Suc m)
    then have "int n \<le> R" using props by blast
    then show ?thesis by simp
  qed
  have n3: "length (filter P es) = n"
    using submission_loop_count[OF run one quiet] by simp
  have c4: "\<forall>k. 0 < k \<and> k \<le> n \<longrightarrow> sum took {..<k} + of_nat (k - 1) * B < T"
    using late test_time_from_start[of _ start took B T] by blast
  have c5: "\<forall>k x. 0 < k \<and> k \<le> n \<and> snd (body k) = Returned x \<longrightarrow> k = n \<and> r = Inr (Some x)"
    using props by blast
  have c6: "\<forall>k x. 0 < k \<and> int k \<le> R \<and> sum took {..<k} + of_nat (k - 1) * B < T
                \<and> (\<forall>j. 0 < j \<and> j < k \<longrightarrow> snd (body j) = Raised)
                \<and> snd (body k) = Returned x
              \<longrightarrow> n = k \<and> r = Inr (Some x) \<and> (\<exists>es'. es = es' @ fst (body k))"
  proof (intro allI impI)
    fix k x
    assume a: "0 < k \<and> int k \<le> R \<and> sum took {..<k} + of_nat (k - 1) * B < T
                \<and> (\<forall>j. 0 < j \<and> j < k \<longrightarrow> snd (body j) = Raised)
                \<and> snd (body k) = Returned x"
    then have k: "0 < k" and R: "int k \<le> R"
      and raised: "\<forall>j. 0 < j \<and> j < k \<longrightarrow> snd (body j) = Raised"
      and ret: "snd (body k) = Returned x" by simp_all
    have time: "start + took 0 + sum took {Suc 0..<k} + of_nat (k - Suc 0) * B < start + T"
      using a test_time_from_start[OF k, of start took B T] by blast
    have B0: "0 \<le> B" using B by simp
    from submission_loop_first_success[OF B0 took k R time raised ret, of msg]
    obtain es' where "submission_loop took body msg R (start + T) B 0 (start + took 0)
                      = (k, es' @ fst (body k), Inr (Some x))" by blast
    with run show "n = k \<and> r = Inr (Some x) \<and> (\<exists>es'. es = es' @ fst (body k))" by auto
  qed
  show ?thesis using n1 n2 n3 c4 c5 c6 by blast
qed

section \<open>Bounds on the retry loop\<close>

lemma request_attempt_returned:
  "snd (request_attempt w marketplace_contract price k) = Returned d \<longleftrightarrow> request_send w k = Sent d"
  by (cases "request_send w k") (simp_all add: request_attempt_def)

lemma request_attempt_raised:
  "snd (request_attempt w marketplace_contract price k) = Raised
   \<longleftrightarrow> (\<forall>d. request_send w k \<noteq> Sent d)"
  by (cases "request_send w k") (simp_all add: request_attempt_def)

lemma request_attempt_sent:
  "request_send w k = Sent d \<Longrightarrow>
   fst (request_attempt w marketplace_contract price k)
   = [BuildTx marketplace_contract ''request'' price, SignTx, SendTx]"
  by (simp add: request_attempt_def)

lemma request_attempt_count:
  "length (filter (\<lambda>e. e = BuildTx marketplace_contract ''request'' price)
             (fst (request_attempt w marketplace_contract price k))) = 1"
  by (cases "request_send w k") (simp_all add: request_attempt_def)

lemma offchain_attempt_returned:
  "snd (offchain_attempt w marketplace_contract k) = Returned d \<longleftrightarrow> offchain_send w k = Posted d"
  by (cases "offchain_send w k") (simp_all add: offchain_attempt_def)

lemma offchain_attempt_raised:
  "snd (offchain_attempt w marketplace_contract k) = Raised
   \<longleftrightarrow> (\<forall>d. offchain_send w k \<noteq> Posted d)"
  by (cases "offchain_send w k") (simp_all add: offchain_attempt_def)

lemma offchain_attempt_posted:
  "offchain_send w k = Posted d \<Longrightarrow>
   fst (offchain_attempt w marketplace_contract k)
   = [EthCall marketplace_contract ''mapNonces'', EthCall marketplace_contract ''getRequestId'',
      SignMessage, HttpPost ''http://localhost:8000/send_signed_requests'']"
  by (simp add: offchain_attempt_def)

lemma offchain_attempt_count:
  "length (filter (\<lambda>e. e = EthCall marketplace_contract ''mapNonces'')
             (fst (offchain_attempt w marketplace_contract k))) = 1"
  by (cases "offchain_send w k") (simp_all add: offchain_attempt_def)

lemma send_marketplace_request_started:
  assumes "push_metadata_to_ipfs w \<noteq> None" and "rc_payment_type method_args_data \<noteq> None"
    and "to_checksum_address w (rc_priority_mech_address method_args_data) \<noteq> None"
    and "submission_loop (lapse w) (request_attempt w marketplace_contract price)
           ''Error occured while sending the transaction: {e}; Retrying in {sleep}''
           (or_default retries (MAX_RETRIES c))
           (now_timestamp w + or_default timeout (TIMEOUT c))
           (or_default sleep (WAIT_SLEEP c)) 0 (now_timestamp w + lapse w 0) = (n, es, r)"
  shows "send_marketplace_request c w marketplace_contract gas prompt tool method_args_data
           extra_attributes price retries timeout sleep
         = (n, [IpfsPush, Print ''  - Prompt uploaded: https://gateway.autonolas.tech/ipfs/{v1_file_hash_hex}''] @ es, r)"
  using assms
  by (auto simp: send_marketplace_request_def method_args_def done_io_def Let_def)

lemma send_marketplace_request_not_started:
  assumes "\<not> (push_metadata_to_ipfs w \<noteq> None \<and> rc_payment_type method_args_data \<noteq> None
              \<and> to_checksum_address w (rc_priority_mech_address method_args_data) \<noteq> None)"
  shows "\<exists>es e. send_marketplace_request c w marketplace_contract gas prompt tool method_args_data
                  extra_attributes price retries timeout sleep = (0, es, Inl e)
               \<and> filter (\<lambda>e. e = BuildTx marketplace_contract ''request'' price) es = []"
  using assms
  by (auto simp: send_marketplace_request_def method_args_def raise_io_def
      split: option.splits)

lemma send_offchain_marketplace_request_started:
  assumes "rc_payment_type method_args_data \<noteq> None"
    and "to_checksum_address w (rc_priority_mech_address method_args_data) \<noteq> None"
    and "submission_loop (lapse w) (offchain_attempt w marketplace_contract)
           ''Error occured while sending the offchain request: {e}; Retrying in {sleep}''
           (or_default retries (MAX_RETRIES c))
           (now_timestamp w + or_default timeout (TIMEOUT c))
           (or_default sleep (WAIT_SLEEP c)) 0 (now_timestamp w + lapse w 0) = (n, es, r)"
  shows "send_offchain_marketplace_request c w marketplace_contract prompt tool method_args_data
           extra_attributes retries timeout sleep
         = (n, [Print ''  - Prompt will shortly be uploaded to: https://gateway.autonolas.tech/ipfs/{v1_file_hash_hex}''] @ es, r)"
  using assms
  by (auto simp: send_offchain_marketplace_request_def method_args_def done_io_def Let_def)

lemma send_offchain_marketplace_request_not_started:
  assumes "\<not> (rc_payment_type method_args_data \<noteq> None
              \<and> to_checksum_address w (rc_priority_mech_address method_args_data) \<noteq> None)"
  shows "\<exists>es e. send_offchain_marketplace_request c w marketplace_contract prompt tool
                  method_args_data extra_attributes retries timeout sleep = (0, es, Inl e)
               \<and> filter (\<lambda>e. e = EthCall marketplace_contract ''mapNonces'') es = []"
  using assms
  by (auto simp: send_offchain_marketplace_request_def method_args_def raise_io_def
      split: option.splits)


lemma send_marketplace_request_budget:
  fixes retries :: "int option" and timeout sleep :: "rat option"
  assumes B: "0 < or_default sleep (WAIT_SLEEP c)" and took: "\<forall>k. 0 \<le> lapse w k"
    and run: "send_marketplace_request c w marketplace_contract gas prompt tool method_args_data
             extra_attributes price retries timeout sleep = (n, es, r)"
  shows "n \<le> nat \<lceil>or_default timeout (TIMEOUT c) / or_default sleep (WAIT_SLEEP c)\<rceil>
       \<and> int n \<le> max 0 (or_default retries (MAX_RETRIES c))
       \<and> length (filter (\<lambda>e. e = BuildTx marketplace_contract ''request'' price) es) = n
       \<and> (\<forall>k. 0 < k \<and> k \<le> n \<longrightarrow>
              sum (lapse w) {..<k} + of_nat (k - 1) * or_default sleep (WAIT_SLEEP c)
                < or_default timeout (TIMEOUT c))
       \<and> (\<forall>k d. 0 < k \<and> k \<le> n \<and> request_send w k = Sent d \<longrightarrow> k = n \<and> r = Inr (Some d))
       \<and> (\<forall>k d. push_metadata_to_ipfs w \<noteq> None \<and> rc_payment_type method_args_data \<noteq> None
                   \<and> to_checksum_address w (rc_priority_mech_address method_args_data) \<noteq> None
                   \<and> 0 < k \<and> int k \<le> or_default retries (MAX_RETRIES c)
                   \<and> sum (lapse w) {..<k} + of_nat (k - 1) * or_default sleep (WAIT_SLEEP c)
                       < or_default timeout (TIMEOUT c)
                   \<and> (\<forall>j d'. 0 < j \<and> j < k \<longrightarrow> request_send w j \<noteq> Sent d')
                   \<and> request_send w k = Sent d
                 \<longrightarrow> n = k \<and> r = Inr (Some d)
                     \<and> (\<exists>es'. es = es' @ [BuildTx marketplace_contract ''request'' price, SignTx, SendTx]))"
proof (cases "push_metadata_to_ipfs w \<noteq> None \<and> rc_payment_type method_args_data \<noteq> None
                   \<and> to_checksum_address w (rc_priority_mech_address method_args_data) \<noteq> None")
  case False
  from send_marketplace_request_not_started[OF False, of c marketplace_contract gas prompt tool extra_attributes price retries timeout sleep] run
  obtain e where "n = 0" "r = Inl e" "filter (\<lambda>e. e = BuildTx marketplace_contract ''request'' price) es = []"
    by auto
  then show ?thesis using False by auto
next
  case True
  let ?body = "request_attempt w marketplace_contract price"
  let ?P = "\<lambda>e. e = BuildTx marketplace_contract ''request'' price"
  let ?B = "or_default sleep (WAIT_SLEEP c)"
  let ?T = "or_default timeout (TIMEOUT c)"
  let ?R = "or_default retries (MAX_RETRIES c)"
  obtain n' es' r' where loop:
    "submission_loop (lapse w) ?body
       ''Error occured while sending the transaction: {e}; Retrying in {sleep}''
       ?R (now_timestamp w + ?T) ?B 0 (now_timestamp w + lapse w 0) = (n', es', r')"
    using prod_cases3 by blast
  have eqs: "n = n'" "r = r'"
    "es = [IpfsPush, Print ''  - Prompt uploaded: https://gateway.autonolas.tech/ipfs/{v1_file_hash_hex}''] @ es'"
    using send_marketplace_request_started[OF True[THEN conjunct1] True[THEN conjunct2, THEN conjunct1] True[THEN conjunct2, THEN conjunct2] loop] run
    by simp_all
  have one: "\<forall>k. length (filter ?P (fst (?body k))) = 1"
    using request_attempt_count by blast
  have q1: "\<not> ?P (Print ''Error occured while sending the transaction: {e}; Retrying in {sleep}'')"
    by simp
  have q2: "\<not> ?P (Sleep ?B)" by simp
  note bud = submission_loop_budget[OF B took one q1 q2 loop]
  have c1: "n' \<le> nat \<lceil>?T / ?B\<rceil>" and c2: "int n' \<le> max 0 ?R"
    and c3: "length (filter ?P es') = n'"
    and c4: "\<forall>k. 0 < k \<and> k \<le> n' \<longrightarrow> sum (lapse w) {..<k} + of_nat (k - 1) * ?B < ?T"
    using bud by blast+
  have c5: "\<forall>k d. 0 < k \<and> k \<le> n' \<and> request_send w k = Sent d \<longrightarrow> k = n' \<and> r' = Inr (Some d)"
    using bud request_attempt_returned[of w marketplace_contract] by blast
  have c6: "\<forall>k d. 0 < k \<and> int k \<le> ?R
                   \<and> sum (lapse w) {..<k} + of_nat (k - 1) * ?B < ?T
                   \<and> (\<forall>j d'. 0 < j \<and> j < k \<longrightarrow> request_send w j \<noteq> Sent d')
                   \<and> request_send w k = Sent d
                 \<longrightarrow> n' = k \<and> r' = Inr (Some d)
                     \<and> (\<exists>es''. [IpfsPush, Print ''  - Prompt uploaded: https://gateway.autonolas.tech/ipfs/{v1_file_hash_hex}''] @ es'
                                = es'' @ [BuildTx marketplace_contract ''request'' price, SignTx, SendTx])"
  proof (intro allI impI)
    fix k d
    assume a: "0 < k \<and> int k \<le> ?R
                   \<and> sum (lapse w) {..<k} + of_nat (k - 1) * ?B < ?T
                   \<and> (\<forall>j d'. 0 < j \<and> j < k \<longrightarrow> request_send w j \<noteq> Sent d')
                   \<and> request_send w k = Sent d"
    have ret: "snd (?body k) = Returned d"
      using a request_attempt_returned[of w marketplace_contract] by blast
    have raised: "\<forall>j. 0 < j \<and> j < k \<longrightarrow> snd (?body j) = Raised"
      using a request_attempt_raised[of w marketplace_contract] by blast
    have evs: "fst (?body k) = [BuildTx marketplace_contract ''request'' price, SignTx, SendTx]"
      using a request_attempt_sent[of w k d marketplace_contract] by blast
    have "n' = k \<and> r' = Inr (Some d) \<and> (\<exists>es''. es' = es'' @ fst (?body k))"
      using bud a ret raised by blast
    then obtain es'' where "n' = k" "r' = Inr (Some d)" "es' = es'' @ fst (?body k)" by blast
    then show "n' = k \<and> r' = Inr (Some d)
                     \<and> (\<exists>es''. [IpfsPush, Print ''  - Prompt uploaded: https://gateway.autonolas.tech/ipfs/{v1_file_hash_hex}''] @ es'
                                = es'' @ [BuildTx marketplace_contract ''request'' price, SignTx, SendTx])"
      unfolding evs by simp
  qed
  have c3': "length (filter ?P ([IpfsPush, Print ''  - Prompt uploaded: https://gateway.autonolas.tech/ipfs/{v1_file_hash_hex}''] @ es')) = n'"
    using c3 by simp
  show ?thesis unfolding eqs using c1 c2 c3' c4 c5 c6 by blast
qed

lemma send_offchain_marketplace_request_budget:
  fixes retries :: "int option" and timeout sleep :: "rat option"
  assumes B: "0 < or_default sleep (WAIT_SLEEP c)" and took: "\<forall>k. 0 \<le> lapse w k"
    and run: "send_offchain_marketplace_request c w marketplace_contract prompt tool
             method_args_data extra_attributes retries timeout sleep = (n, es, r)"
  shows "n \<le> nat \<lceil>or_default timeout (TIMEOUT c) / or_default sleep (WAIT_SLEEP c)\<rceil>
       \<and> int n \<le> max 0 (or_default retries (MAX_RETRIES c))
       \<and> length (filter (\<lambda>e. e = EthCall marketplace_contract ''mapNonces'') es) = n
       \<and> (\<forall>k. 0 < k \<and> k \<le> n \<longrightarrow>
              sum (lapse w) {..<k} + of_nat (k - 1) * or_default sleep (WAIT_SLEEP c)
                < or_default timeout (TIMEOUT c))
       \<and> (\<forall>k d. 0 < k \<and> k \<le> n \<and> offchain_send w k = Posted d \<longrightarrow> k = n \<and> r = Inr (Some d))
       \<and> (\<forall>k d. rc_payment_type method_args_data \<noteq> None
                   \<and> to_checksum_address w (rc_priority_mech_address method_args_data) \<noteq> None
                   \<and> 0 < k \<and> int k \<le> or_default retries (MAX_RETRIES c)
                   \<and> sum (lapse w) {..<k} + of_nat (k - 1) * or_default sleep (WAIT_SLEEP c)
                       < or_default timeout (TIMEOUT c)
                   \<and> (\<forall>j d'. 0 < j \<and> j < k \<longrightarrow> offchain_send w j \<noteq> Posted d')
                   \<and> offchain_send w k = Posted d
                 \<longrightarrow> n = k \<and> r = Inr (Some d)
                     \<and> (\<exists>es'. es = es' @ [EthCall marketplace_contract ''mapNonces'',
                                   EthCall marketplace_contract ''getRequestId'', SignMessage,
                                   HttpPost ''http://localhost:8000/send_signed_requests'']))"
proof (cases "rc_payment_type method_args_data \<noteq> None
                   \<and> to_checksum_address w (rc_priority_mech_address method_args_data) \<noteq> None")
  case False
  from send_offchain_marketplace_request_not_started[OF False, of c marketplace_contract prompt tool extra_attributes retries timeout sleep] run
  obtain e where "n = 0" "r = Inl e" "filter (\<lambda>e. e = EthCall marketplace_contract ''mapNonces'') es = []"
    by auto
  then show ?thesis using False by auto
next
  case True
  let ?body = "offchain_attempt w marketplace_contract"
  let ?P = "\<lambda>e. e = EthCall marketplace_contract ''mapNonces''"
  let ?B = "or_default sleep (WAIT_SLEEP c)"
  let ?T = "or_default timeout (TIMEOUT c)"
  let ?R = "or_default retries (MAX_RETRIES c)"
  obtain n' es' r' where loop:
    "submission_loop (lapse w) ?body
       ''Error occured while sending the offchain request: {e}; Retrying in {sleep}''
       ?R (now_timestamp w + ?T) ?B 0 (now_timestamp w + lapse w 0) = (n', es', r')"
    using prod_cases3 by blast
  have eqs: "n = n'" "r = r'"
    "es = [Print ''  - Prompt will shortly be uploaded to: https://gateway.autonolas.tech/ipfs/{v1_file_hash_hex}''] @ es'"
    using send_offchain_marketplace_request_started[OF True[THEN conjunct1] True[THEN conjunct2] loop] run
    by simp_all
  have one: "\<forall>k. length (filter ?P (fst (?body k))) = 1"
    using offchain_attempt_count by blast
  have q1: "\<not> ?P (Print ''Error occured while sending the offchain request: {e}; Retrying in {sleep}'')"
    by simp
  have q2: "\<not> ?P (Sleep ?B)" by simp
  note bud = submission_loop_budget[OF B took one q1 q2 loop]
  have c1: "n' \<le> nat \<lceil>?T / ?B\<rceil>" and c2: "int n' \<le> max 0 ?R"
    and c3: "length (filter ?P es') = n'"
    and c4: "\<forall>k. 0 < k \<and> k \<le> n' \<longrightarrow> sum (lapse w) {..<k} + of_nat (k - 1) * ?B < ?T"
    using bud by blast+
  have c5: "\<forall>k d. 0 < k \<and> k \<le> n' \<and> offchain_send w k = Posted d \<longrightarrow> k = n' \<and> r' = Inr (Some d)"
    using bud offchain_attempt_returned[of w marketplace_contract] by blast
  have c6: "\<forall>k d. 0 < k \<and> int k \<le> ?R
                   \<and> sum (lapse w) {..<k} + of_nat (k - 1) * ?B < ?T
                   \<and> (\<forall>j d'. 0 < j \<and> j < k \<longrightarrow> offchain_send w j \<noteq> Posted d')
                   \<and> offchain_send w k = Posted d
                 \<longrightarrow> n' = k \<and> r' = Inr (Some d)
                     \<and> (\<exists>es''. [Print ''  - Prompt will shortly be uploaded to: https://gateway.autonolas.tech/ipfs/{v1_file_hash_hex}''] @ es'
                                = es'' @ [EthCall marketplace_contract ''mapNonces'',
                                   EthCall marketplace_contract ''getRequestId'', SignMessage,
                                   HttpPost ''http://localhost:8000/send_signed_requests''])"
  proof (intro allI impI)
    fix k d
    assume a: "0 < k \<and> int k \<le> ?R
                   \<and> sum (lapse w) {..<k} + of_nat (k - 1) * ?B < ?T
                   \<and> (\<forall>j d'. 0 < j \<and> j < k \<longrightarrow> offchain_send w j \<noteq> Posted d')
                   \<and> offchain_send w k = Posted d"
    have ret: "snd (?body k) = Returned d"
      using a offchain_attempt_returned[of w marketplace_contract] by blast
    have raised: "\<forall>j. 0 < j \<and> j < k \<longrightarrow> snd (?body j) = Raised"
      using a offchain_attempt_raised[of w marketplace_contract] by blast
    have evs: "fst (?body k) = [EthCall marketplace_contract ''mapNonces'',
                                   EthCall marketplace_contract ''getRequestId'', SignMessage,
                                   HttpPost ''http://localhost:8000/send_signed_requests'']"
      using a offchain_attempt_posted[of w k d marketplace_contract] by blast
    have "n' = k \<and> r' = Inr (Some d) \<and> (\<exists>es''. es' = es'' @ fst (?body k))"
      using bud a ret raised by blast
    then obtain es'' where "n' = k" "r' = Inr (Some d)" "es' = es'' @ fst (?body k)" by blast
    then show "n' = k \<and> r' = Inr (Some d)
                     \<and> (\<exists>es''. [Print ''  - Prompt will shortly be uploaded to: https://gateway.autonolas.tech/ipfs/{v1_file_hash_hex}''] @ es'
                                = es'' @ [EthCall marketplace_contract ''mapNonces'',
                                   EthCall marketplace_contract ''getRequestId'', SignMessage,
                                   HttpPost ''http://localhost:8000/send_signed_requests''])"
      unfolding evs by simp
  qed
  have c3': "length (filter ?P ([Print ''  - Prompt will shortly be uploaded to: https://gateway.autonolas.tech/ipfs/{v1_file_hash_hex}''] @ es')) = n'"
    using c3 by simp
  show ?thesis unfolding eqs using c1 c2 c3' c4 c5 c6 by blast
qed

text \<open>
  C4. Let \<open>T\<close> be the timeout, \<open>R\<close> the retry count and \<open>B\<close> the sleep in effect (the
  argument, or the default when the argument is absent or zero), with \<open>B\<close> positive, and
  assume that no lapse is negative: the clock is not set back. The sleep of the loop is
  then what moves the clock from one test to the next by at least \<open>B\<close>. Each of the two
  senders makes at most \<open>ceil(T / B)\<close> attempts and at most \<open>R\<close>: that number is the final
  value of \<open>tries\<close>, and it is the number of attempts in the trace (the request
  transactions built, or the nonces read). Attempt \<open>k\<close> is started at a test of the loop
  where less than \<open>T\<close> has passed since the deadline was computed, namely the lapses so
  far and \<open>k - 1\<close> sleeps. An attempt that succeeds is the last one and its value is the
  result. And the senders do return it: when a sender gets as far as its loop and
  attempt \<open>k\<close> is within the retry count, within the deadline, and the first to succeed,
  the sender makes exactly \<open>k\<close> attempts and returns the value of attempt \<open>k\<close>, and the
  events of that attempt are the last of its trace.
\<close>

theorem submission_attempts_bounded:
  fixes retries :: "int option" and timeout sleep :: "rat option"
  assumes "0 < or_default sleep (WAIT_SLEEP c)"
    and "\<forall>k. 0 \<le> lapse w k"
  shows
    "(case send_marketplace_request c w marketplace_contract gas prompt tool method_args_data
                 extra_attributes price retries timeout sleep of
        (n, es, r) \<Rightarrow>
          n \<le> nat \<lceil>or_default timeout (TIMEOUT c) / or_default sleep (WAIT_SLEEP c)\<rceil>
          \<and> int n \<le> max 0 (or_default retries (MAX_RETRIES c))
          \<and> length (filter (\<lambda>e. e = BuildTx marketplace_contract ''request'' price) es) = n
          \<and> (\<forall>k. 0 < k \<and> k \<le> n \<longrightarrow>
                 sum (lapse w) {..<k} + of_nat (k - 1) * or_default sleep (WAIT_SLEEP c)
                   < or_default timeout (TIMEOUT c))
          \<and> (\<forall>k d. 0 < k \<and> k \<le> n \<and> request_send w k = Sent d \<longrightarrow> k = n \<and> r = Inr (Some d))
          \<and> (\<forall>k d. push_metadata_to_ipfs w \<noteq> None \<and> rc_payment_type method_args_data \<noteq> None
                      \<and> to_checksum_address w (rc_priority_mech_address method_args_data) \<noteq> None
                      \<and> 0 < k \<and> int k \<le> or_default retries (MAX_RETRIES c)
                      \<and> sum (lapse w) {..<k} + of_nat (k - 1) * or_default sleep (WAIT_SLEEP c)
                          < or_default timeout (TIMEOUT c)
                      \<and> (\<forall>j d'. 0 < j \<and> j < k \<longrightarrow> request_send w j \<noteq> Sent d')
                      \<and> request_send w k = Sent d
                    \<longrightarrow> n = k \<and> r = Inr (Some d)
                        \<and> (\<exists>es'. es = es' @ [BuildTx marketplace_contract ''request'' price, SignTx, SendTx])))
     \<and> (case send_offchain_marketplace_request c w marketplace_contract prompt tool
                   method_args_data extra_attributes retries timeout sleep of
        (n, es, r) \<Rightarrow>
          n \<le> nat \<lceil>or_default timeout (TIMEOUT c) / or_default sleep (WAIT_SLEEP c)\<rceil>
          \<and> int n \<le> max 0 (or_default retries (MAX_RETRIES c))
          \<and> length (filter (\<lambda>e. e = EthCall marketplace_contract ''mapNonces'') es) = n
          \<and> (\<forall>k. 0 < k \<and> k \<le> n \<longrightarrow>
                 sum (lapse w) {..<k} + of_nat (k - 1) * or_default sleep (WAIT_SLEEP c)
                   < or_default timeout (TIMEOUT c))
          \<and> (\<forall>k d. 0 < k \<and> k \<le> n \<and> offchain_send w k = Posted d \<longrightarrow> k = n \<and> r = Inr (Some d))
          \<and> (\<forall>k d. rc_payment_type method_args_data \<noteq> None
                      \<and> to_checksum_address w (rc_priority_mech_address method_args_data) \<noteq> None
                      \<and> 0 < k \<and> int k \<le> or_default retries (MAX_RETRIES c)
                      \<and> sum (lapse w) {..<k} + of_nat (k - 1) * or_default sleep (WAIT_SLEEP c)
                          < or_default timeout (TIMEOUT c)
                      \<and> (\<forall>j d'. 0 < j \<and> j < k \<longrightarrow> offchain_send w j \<noteq> Posted d')
                      \<and> offchain_send w k = Posted d
                    \<longrightarrow> n = k \<and> r = Inr (Some d)
                        \<and> (\<exists>es'. es = es' @ [EthCall marketplace_contract ''mapNonces'',
                                      EthCall marketplace_contract ''getRequestId'', SignMessage,
                                      HttpPost ''http://localhost:8000/send_signed_requests''])))"
proof -
  obtain n es r where on:
    "send_marketplace_request c w marketplace_contract gas prompt tool method_args_data
             extra_attributes price retries timeout sleep = (n, es, r)"
    using prod_cases3 by blast
  obtain n' es' r' where off:
    "send_offchain_marketplace_request c w marketplace_contract prompt tool
             method_args_data extra_attributes retries timeout sleep = (n', es', r')"
    using prod_cases3 by blast
  show ?thesis
    unfolding on off prod.case
    using send_marketplace_request_budget[OF assms on]
      send_offchain_marketplace_request_budget[OF assms off]
    by (rule conjI)
qed


lemma sample_send_second:
  "send_marketplace_request sample_constants
     ((sample_world PAYMENT_TYPE_NATIVE 9 0 second_sent)\<lparr>offchain_send := second_posted\<rparr>)
     ''0xM'' 100000 ''p'' ''t'' sample_request_config None 5 None None None
   = (2, [IpfsPush,
          Print ''  - Prompt uploaded: https://gateway.autonolas.tech/ipfs/{v1_file_hash_hex}'',
          BuildTx ''0xM'' ''request'' 5, SignTx, SendTx,
          Print ''Error occured while sending the transaction: {e}; Retrying in {sleep}'',
          Sleep 3,
          BuildTx ''0xM'' ''request'' 5, SignTx, SendTx],
      Inr (Some ''0xd2''))"
  by (simp add: send_marketplace_request_def method_args_def submission_loop.simps
      request_attempt_def sample_constants_def sample_world_def second_sent_def or_default_def
      sample_request_config_def done_io_def raise_io_def)

lemma sample_post_second:
  "send_offchain_marketplace_request sample_constants
     ((sample_world PAYMENT_TYPE_NATIVE 9 0 second_sent)\<lparr>offchain_send := second_posted\<rparr>)
     ''0xM'' ''p'' ''t'' sample_request_config None None None None
   = (2, [Print ''  - Prompt will shortly be uploaded to: https://gateway.autonolas.tech/ipfs/{v1_file_hash_hex}'',
          EthCall ''0xM'' ''mapNonces'', EthCall ''0xM'' ''getRequestId'', SignMessage,
          HttpPost ''http://localhost:8000/send_signed_requests'',
          Print ''Error occured while sending the offchain request: {e}; Retrying in {sleep}'',
          Sleep 3,
          EthCall ''0xM'' ''mapNonces'', EthCall ''0xM'' ''getRequestId'', SignMessage,
          HttpPost ''http://localhost:8000/send_signed_requests''],
      Inr (Some (JObj [(''request_id'', JInt 42)])))"
  by (simp add: send_offchain_marketplace_request_def method_args_def submission_loop.simps
      offchain_attempt_def sample_constants_def sample_world_def second_posted_def or_default_def
      sample_request_config_def done_io_def raise_io_def)

theorem submission_attempts_bounded_witness:
  "0 < or_default None (WAIT_SLEEP sample_constants)
   \<and> (\<forall>k. 0 \<le> lapse ((sample_world PAYMENT_TYPE_NATIVE 9 0 second_sent)\<lparr>offchain_send := second_posted\<rparr>) k)
   \<and> send_marketplace_request sample_constants ((sample_world PAYMENT_TYPE_NATIVE 9 0 second_sent)\<lparr>offchain_send := second_posted\<rparr>)
        ''0xM'' 100000 ''p'' ''t'' sample_request_config None 5 None None None
      = (2, [IpfsPush,
             Print ''  - Prompt uploaded: https://gateway.autonolas.tech/ipfs/{v1_file_hash_hex}'',
             BuildTx ''0xM'' ''request'' 5, SignTx, SendTx,
             Print ''Error occured while sending the transaction: {e}; Retrying in {sleep}'',
             Sleep 3,
             BuildTx ''0xM'' ''request'' 5, SignTx, SendTx],
         Inr (Some ''0xd2''))
   \<and> send_offchain_marketplace_request sample_constants ((sample_world PAYMENT_TYPE_NATIVE 9 0 second_sent)\<lparr>offchain_send := second_posted\<rparr>)
        ''0xM'' ''p'' ''t'' sample_request_config None None None None
      = (2, [Print ''  - Prompt will shortly be uploaded to: https://gateway.autonolas.tech/ipfs/{v1_file_hash_hex}'',
             EthCall ''0xM'' ''mapNonces'', EthCall ''0xM'' ''getRequestId'', SignMessage,
             HttpPost ''http://localhost:8000/send_signed_requests'',
             Print ''Error occured while sending the offchain request: {e}; Retrying in {sleep}'',
             Sleep 3,
             EthCall ''0xM'' ''mapNonces'', EthCall ''0xM'' ''getRequestId'', SignMessage,
             HttpPost ''http://localhost:8000/send_signed_requests''],
         Inr (Some (JObj [(''request_id'', JInt 42)])))
   \<and> nat \<lceil>or_default None (TIMEOUT sample_constants)
            / or_default None (WAIT_SLEEP sample_constants)\<rceil> = 20
   \<and> or_default None (MAX_RETRIES sample_constants) = 3
   \<and> sum (lapse ((sample_world PAYMENT_TYPE_NATIVE 9 0 second_sent)\<lparr>offchain_send := second_posted\<rparr>)) {..<2} + of_nat (2 - 1) * or_default None (WAIT_SLEEP sample_constants) = 4
   \<and> or_default None (TIMEOUT sample_constants) = 60"
proof -
  let ?w = "((sample_world PAYMENT_TYPE_NATIVE 9 0 second_sent)\<lparr>offchain_send := second_posted\<rparr>)"
  have h1: "0 < or_default (None :: rat option) (WAIT_SLEEP sample_constants)"
    by (simp add: or_default_def sample_constants_def)
  have h2: "\<forall>k. 0 \<le> lapse ?w k"
    by (simp add: sample_world_def)
  have v1: "nat \<lceil>or_default None (TIMEOUT sample_constants)
            / or_default None (WAIT_SLEEP sample_constants)\<rceil> = 20"
    by (simp add: or_default_def sample_constants_def)
  have v2: "or_default (None :: int option) (MAX_RETRIES sample_constants) = 3"
    by (simp add: or_default_def sample_constants_def)
  have v3: "sum (lapse ?w) {..<2} + of_nat (2 - 1) * or_default None (WAIT_SLEEP sample_constants) = 4"
    by (simp add: sample_world_def or_default_def sample_constants_def lessThan_Suc numeral_2_eq_2)
  have v4: "or_default (None :: rat option) (TIMEOUT sample_constants) = 60"
    by (simp add: or_default_def sample_constants_def)
  have "fst (send_marketplace_request sample_constants ?w
               ''0xM'' 100000 ''p'' ''t'' sample_request_config None 5 None None None)
          \<le> nat \<lceil>or_default None (TIMEOUT sample_constants)
                      / or_default None (WAIT_SLEEP sample_constants)\<rceil>
        \<and> fst (send_offchain_marketplace_request sample_constants ?w
               ''0xM'' ''p'' ''t'' sample_request_config None None None None)
          \<le> nat \<lceil>or_default None (TIMEOUT sample_constants)
                      / or_default None (WAIT_SLEEP sample_constants)\<rceil>"
    using submission_attempts_bounded [where c = sample_constants and w = ?w
        and sleep = None and timeout = None and retries = None
        and marketplace_contract = "''0xM''" and gas = 100000 and prompt = "''p''"
        and tool = "''t''" and method_args_data = sample_request_config
        and extra_attributes = None and price = 5, OF h1 h2]
    by (simp add: case_prod_unfold)
  then show ?thesis
    using h1 h2 v1 v2 v3 v4 by (simp add: sample_send_second sample_post_second)
qed

section \<open>Chains without a default request configuration\<close>

text \<open>
  C10. When the chain id of the configuration is not 100 and the marketplace contract
  address is not the zero address, \<open>marketplace_interact\<close> ends with \<open>KeyError\<close> before it
  does anything to the outside world: no connection, no read, no transaction, no wait.
  The default request configuration table has the single key 100, while the wrapped
  token table has six keys.
\<close>

theorem unsupported_chain_key_error:
  assumes "chain_id (ledger_config mech_config) \<noteq> 100"
    and "mc_mech_marketplace_contract mech_config \<noteq> ADDRESS_ZERO"
  shows "marketplace_interact c w mech_config prompt priority_mech use_prepaid use_offchain
           tool extra_attributes private_key_path confirmation_type retries timeout sleep
         = Run ([], Inl KeyError)
       \<and> map fst CHAIN_TO_DEFAULT_MECH_MARKETPLACE_REQUEST_CONFIG = [100]
       \<and> map fst CHAIN_TO_WRAPPED_TOKEN = [1, 10, 100, 137, 8453, 42220]"
proof -
  have "preflight c w mech_config priority_mech use_prepaid tool private_key_path
        = ([], Inl KeyError)"
    using assms
    by (simp add: preflight_def CHAIN_TO_DEFAULT_MECH_MARKETPLACE_REQUEST_CONFIG_def raise_io_def)
  then show ?thesis
    by (simp add: marketplace_interact_def CHAIN_TO_DEFAULT_MECH_MARKETPLACE_REQUEST_CONFIG_def
        CHAIN_TO_WRAPPED_TOKEN_def)
qed

theorem unsupported_chain_key_error_witness:
  "chain_id (ledger_config (sample_config 10)) \<noteq> 100
   \<and> mc_mech_marketplace_contract (sample_config 10) \<noteq> ADDRESS_ZERO
   \<and> map_of CHAIN_TO_WRAPPED_TOKEN 10 = Some ''0x4200000000000000000000000000000000000006''
   \<and> marketplace_interact sample_constants (sample_world PAYMENT_TYPE_NATIVE 9 0 always_sent)
        (sample_config 10) ''What is the weather?'' None False False None None None
        WAIT_FOR_BOTH None None None
      = Run ([], Inl KeyError)"
proof -
  have h1: "chain_id (ledger_config (sample_config 10)) \<noteq> 100"
    by (simp add: sample_config_def)
  have h2: "mc_mech_marketplace_contract (sample_config 10) \<noteq> ADDRESS_ZERO"
    by (simp add: sample_config_def ADDRESS_ZERO_def)
  have h3: "map_of CHAIN_TO_WRAPPED_TOKEN 10 = Some ''0x4200000000000000000000000000000000000006''"
    by (simp add: CHAIN_TO_WRAPPED_TOKEN_def)
  show ?thesis
    using h1 h2 h3
      unsupported_chain_key_error [OF h1 h2, of sample_constants
        "sample_world PAYMENT_TYPE_NATIVE 9 0 always_sent" "''What is the weather?''"
        None False False None None None WAIT_FOR_BOTH None None None]
    by simp
qed

section \<open>What the orchestrator does with the result of the preparation\<close>

lemma marketplace_interact_stops:
  assumes "preflight c w mech_config priority_mech use_prepaid tool private_key_path = (es, Inl e)"
  shows "marketplace_interact c w mech_config prompt priority_mech use_prepaid use_offchain tool
           extra_attributes private_key_path confirmation_type retries timeout sleep
         = Run (es, Inl e)"
  using assms by (simp add: marketplace_interact_def)

lemma marketplace_interact_onchain:
  assumes "preflight c w mech_config priority_mech use_prepaid tool private_key_path
           = (es, Inr (Some (contract_address, request_config, tool', price)))"
    and "\<not> use_offchain"
  shows "marketplace_interact c w mech_config prompt priority_mech use_prepaid use_offchain tool
           extra_attributes private_key_path confirmation_type retries timeout sleep
         = Run (andthen (emit es)
                  (\<lambda>_. submit_onchain c w mech_config contract_address prompt tool'
                          request_config extra_attributes price confirmation_type
                          retries timeout sleep))"
  using assms by (simp add: marketplace_interact_def)

lemmas io_defs = andthen_def emit_def done_io_def raise_io_def

lemmas payment_type_defs = PAYMENT_TYPE_NATIVE_def PAYMENT_TYPE_TOKEN_def PAYMENT_TYPE_NVM_def

lemmas preflight_defs =
  preflight_def custom_config_def custom_notice_def key_path_def fetch_mech_info_def
  info_reads_def
  resolve_price_def check_prepaid_balances_def check_subscription_def
  fetch_requester_nvm_subscription_balance_def approve_price_tokens_def
  get_event_signatures_def CHAIN_TO_DEFAULT_MECH_MARKETPLACE_REQUEST_CONFIG_def
  CHAIN_TO_WRAPPED_TOKEN_def ADDRESS_ZERO_def Let_def

lemmas sample_defs = sample_constants_def sample_config_def sample_world_def

lemma sample_preflight_native:
  "preflight sample_constants (sample_world PAYMENT_TYPE_NATIVE 9 0 sends) (sample_config 100)
     None False None None
   = ([WssConnect ''wss://rpc'', Print ''Fetching Mech Info...'',
       EthCall ''0x478ad20eD958dCC5AD4ABa6F4E4cc51e07a840E4'' ''paymentType'',
       EthCall ''0x478ad20eD958dCC5AD4ABa6F4E4cc51e07a840E4'' ''maxDeliveryRate'',
       EthCall ''0x478ad20eD958dCC5AD4ABa6F4E4cc51e07a840E4'' ''serviceId'',
       EthCall ''0x735FAAb1c4Ec41128c367AFb5c3baC73509f70bB'' ''mapPaymentTypeBalanceTrackers'',
       VerifyTool,
       RegisterHandlers ''0x735FAAb1c4Ec41128c367AFb5c3baC73509f70bB'' [] []],
      Inr (Some (''0x735FAAb1c4Ec41128c367AFb5c3baC73509f70bB'',
                 \<lparr>rc_mech_marketplace_contract = ''0x735FAAb1c4Ec41128c367AFb5c3baC73509f70bB'',
                  rc_priority_mech_address = ''0x478ad20eD958dCC5AD4ABa6F4E4cc51e07a840E4'',
                  rc_response_timeout = 300,
                  rc_payment_data = ''0x'',
                  rc_delivery_rate = Some 5,
                  rc_payment_type = Some PAYMENT_TYPE_NATIVE\<rparr>,
                 ''openai-gpt-4'', 5)))"
  by (simp add: preflight_defs sample_defs io_defs payment_type_defs)

section \<open>Payment resolution failures\<close>

lemma payment_types_distinct:
  "PAYMENT_TYPE_NATIVE \<noteq> PAYMENT_TYPE_TOKEN" "PAYMENT_TYPE_NATIVE \<noteq> PAYMENT_TYPE_NVM"
  "PAYMENT_TYPE_TOKEN \<noteq> PAYMENT_TYPE_NVM" "PAYMENT_TYPE_TOKEN \<noteq> PAYMENT_TYPE_NATIVE"
  "PAYMENT_TYPE_NVM \<noteq> PAYMENT_TYPE_NATIVE" "PAYMENT_TYPE_NVM \<noteq> PAYMENT_TYPE_TOKEN"
  by (simp_all add: payment_type_defs)

lemma fetch_mech_info_invalid:
  assumes "paymentType w mech \<notin> set [PAYMENT_TYPE_NATIVE, PAYMENT_TYPE_TOKEN, PAYMENT_TYPE_NVM]"
  shows "fetch_mech_info w contract mech
         = (info_reads contract mech @ [Print ''  - Invalid mech type detected.''],
            Inl (SystemExit 1))"
  using assms by (simp add: fetch_mech_info_def io_defs Let_def)

lemma fetch_mech_info_valid:
  assumes "paymentType w mech \<in> set [PAYMENT_TYPE_NATIVE, PAYMENT_TYPE_TOKEN, PAYMENT_TYPE_NVM]"
  shows "fetch_mech_info w contract mech
         = (info_reads contract mech,
            Inr (paymentType w mech, serviceId w mech, maxDeliveryRate w mech,
                 mapPaymentTypeBalanceTrackers w contract (paymentType w mech), mech))"
  using assms by (simp add: fetch_mech_info_def io_defs Let_def)

lemma andthen_emit_emit:
  "andthen (emit a) (\<lambda>_. andthen (emit b) f) = andthen (emit (a @ b)) f"
  by (simp add: io_defs split: prod.splits sum.splits)

lemma preflight_started:
  assumes "mc_mech_marketplace_contract mech_config \<noteq> ADDRESS_ZERO"
    and "map_of CHAIN_TO_DEFAULT_MECH_MARKETPLACE_REQUEST_CONFIG
           (chain_id (ledger_config mech_config)) = Some defaults"
    and "path_exists w (key_path c private_key_path)"
  shows "preflight c w mech_config priority_mech use_prepaid tool private_key_path
         = (let config_values = custom_config defaults priority_mech
                                  (mc_mech_marketplace_contract mech_config);
                contract_address = rc_mech_marketplace_contract config_values;
                signatures = get_event_signatures w (marketplace_abi w)
            in andthen
                 (emit (custom_notice priority_mech
                          @ [WssConnect (wss_endpoint mech_config),
                             Print ''Fetching Mech Info...'']))
                 (\<lambda>_. andthen
                         (fetch_mech_info w contract_address
                            (rc_priority_mech_address config_values))
                         (\<lambda>(payment_type, service_id, max_delivery_rate,
                             mech_payment_balance_tracker, mech_contract).
                            andthen
                              (emit [VerifyTool,
                                     RegisterHandlers contract_address
                                       (fst signatures) (snd signatures)])
                              (\<lambda>_. andthen
                                      (resolve_price w (chain_id (ledger_config mech_config))
                                         use_prepaid payment_type max_delivery_rate
                                         mech_payment_balance_tracker)
                                      (\<lambda>price.
                                         case price of
                                           None \<Rightarrow> done_io None
                                         | Some price \<Rightarrow>
                                             andthen
                                               (check_subscription w payment_type
                                                  mech_payment_balance_tracker price)
                                               (\<lambda>price.
                                                  done_io
                                                    (Some (contract_address,
                                                           config_values
                                                             \<lparr>rc_delivery_rate := Some max_delivery_rate,
                                                              rc_payment_type := Some payment_type\<rparr>,
                                                           verify_or_retrieve_tool w service_id tool,
                                                           price))))))))"
  using assms by (simp add: preflight_def Let_def andthen_emit_emit)

text \<open>
  C3. Take a call that reaches the resolution of the mech (the marketplace is
  supported on the chain, the chain has a default configuration, the key file exists).
  If the payment type that the mech declares is none of the three known ones,
  \<open>fetch_mech_info\<close> exits with status 1 after its four contract reads and the message
  \<open>Invalid mech type detected\<close>, and so does \<open>marketplace_interact\<close>: the reads are made
  once, and nothing follows them. Before the reads the call has only opened the
  websocket connection.
\<close>

theorem unknown_payment_type_exits:
  assumes "mc_mech_marketplace_contract mech_config \<noteq> ADDRESS_ZERO"
    and "map_of CHAIN_TO_DEFAULT_MECH_MARKETPLACE_REQUEST_CONFIG
           (chain_id (ledger_config mech_config)) = Some defaults"
    and "path_exists w (key_path c private_key_path)"
    and "config_values = custom_config defaults priority_mech
                           (mc_mech_marketplace_contract mech_config)"
    and "paymentType w (rc_priority_mech_address config_values)
           \<notin> set [PAYMENT_TYPE_NATIVE, PAYMENT_TYPE_TOKEN, PAYMENT_TYPE_NVM]"
  shows "fetch_mech_info w (rc_mech_marketplace_contract config_values)
           (rc_priority_mech_address config_values)
         = (info_reads (rc_mech_marketplace_contract config_values)
              (rc_priority_mech_address config_values)
            @ [Print ''  - Invalid mech type detected.''], Inl (SystemExit 1))
       \<and> marketplace_interact c w mech_config prompt priority_mech use_prepaid use_offchain tool
           extra_attributes private_key_path confirmation_type retries timeout sleep
         = Run (custom_notice priority_mech
                  @ [WssConnect (wss_endpoint mech_config), Print ''Fetching Mech Info...'']
                  @ info_reads (rc_mech_marketplace_contract config_values)
                      (rc_priority_mech_address config_values)
                  @ [Print ''  - Invalid mech type detected.''],
                Inl (SystemExit 1))"
proof -
  note bad = fetch_mech_info_invalid[OF assms(5)]
  have "preflight c w mech_config priority_mech use_prepaid tool private_key_path
        = (custom_notice priority_mech
             @ [WssConnect (wss_endpoint mech_config), Print ''Fetching Mech Info...'']
             @ info_reads (rc_mech_marketplace_contract config_values)
                 (rc_priority_mech_address config_values)
             @ [Print ''  - Invalid mech type detected.''],
           Inl (SystemExit 1))"
    unfolding preflight_started[OF assms(1-3)] Let_def assms(4)[symmetric] bad
    by (simp add: io_defs)
  from marketplace_interact_stops[OF this] bad show ?thesis by simp
qed

theorem unknown_payment_type_exits_witness:
  "map_of CHAIN_TO_DEFAULT_MECH_MARKETPLACE_REQUEST_CONFIG
     (chain_id (ledger_config (sample_config 100))) = Some sample_defaults
   \<and> ''00'' \<notin> set [PAYMENT_TYPE_NATIVE, PAYMENT_TYPE_TOKEN, PAYMENT_TYPE_NVM]
   \<and> marketplace_interact sample_constants (sample_world ''00'' 9 9 always_sent)
        (sample_config 100) ''What is the weather?'' None False False None None None
        WAIT_FOR_BOTH None None None
      = Run ([WssConnect ''wss://rpc'', Print ''Fetching Mech Info...'',
              EthCall ''0x478ad20eD958dCC5AD4ABa6F4E4cc51e07a840E4'' ''paymentType'',
              EthCall ''0x478ad20eD958dCC5AD4ABa6F4E4cc51e07a840E4'' ''maxDeliveryRate'',
              EthCall ''0x478ad20eD958dCC5AD4ABa6F4E4cc51e07a840E4'' ''serviceId'',
              EthCall ''0x735FAAb1c4Ec41128c367AFb5c3baC73509f70bB'' ''mapPaymentTypeBalanceTrackers'',
              Print ''  - Invalid mech type detected.''],
             Inl (SystemExit 1))"
proof -
  let ?w = "sample_world ''00'' 9 9 always_sent"
  have h1: "mc_mech_marketplace_contract (sample_config 100) \<noteq> ADDRESS_ZERO"
    by (simp add: sample_config_def ADDRESS_ZERO_def)
  have h2: "map_of CHAIN_TO_DEFAULT_MECH_MARKETPLACE_REQUEST_CONFIG
              (chain_id (ledger_config (sample_config 100))) = Some sample_defaults"
    by (simp add: sample_config_def sample_defaults_def
        CHAIN_TO_DEFAULT_MECH_MARKETPLACE_REQUEST_CONFIG_def)
  have h3: "path_exists ?w (key_path sample_constants None)"
    by (simp add: sample_world_def)
  have h4: "sample_defaults = custom_config sample_defaults None
              (mc_mech_marketplace_contract (sample_config 100))"
    by (simp add: custom_config_def)
  have h5: "paymentType ?w (rc_priority_mech_address sample_defaults)
              \<notin> set [PAYMENT_TYPE_NATIVE, PAYMENT_TYPE_TOKEN, PAYMENT_TYPE_NVM]"
    by (simp add: sample_world_def payment_type_defs)
  have h6: "''00'' \<notin> set [PAYMENT_TYPE_NATIVE, PAYMENT_TYPE_TOKEN, PAYMENT_TYPE_NVM]"
    by (simp add: payment_type_defs)
  show ?thesis
    using h2 h6 unknown_payment_type_exits [OF h1 h2 h3 h4 h5,
        where prompt = "''What is the weather?''" and use_prepaid = False
          and use_offchain = False and tool = None and extra_attributes = None
          and confirmation_type = WAIT_FOR_BOTH and retries = None and timeout = None
          and sleep = None]
    by (simp add: custom_notice_def info_reads_def sample_config_def sample_defaults_def)
qed

section \<open>Prepaid balances\<close>




lemmas run_defs =
  marketplace_interact_def preflight_defs submit_onchain_def send_marketplace_request_def
  method_args_def submission_loop.simps request_attempt_def wait_for_marketplace_data_url_def
  create_tasks_def wait_for_tasks_def request_id_to_int_def hex_value_def is_space_def
  int_from_bytes_def or_default_def io_defs sample_defs payment_type_defs


section \<open>Subscription credits\<close>

text \<open>
  A call without prepayment to a mech whose payment type is the subscription one: the
  subscription token contract and the token id are read from the balance tracker, then
  the requester's balance of that id from the token contract. A balance below the max
  delivery rate of the mech ends the call with status 1 after the message that the
  subscription balance is low, and nothing has been built, signed or sent.
\<close>

lemma unprepaid_subscription_low_exits:
  assumes "mc_mech_marketplace_contract mech_config \<noteq> ADDRESS_ZERO"
    and "map_of CHAIN_TO_DEFAULT_MECH_MARKETPLACE_REQUEST_CONFIG
           (chain_id (ledger_config mech_config)) = Some defaults"
    and "path_exists w (key_path c private_key_path)"
    and "config_values = custom_config defaults priority_mech
                           (mc_mech_marketplace_contract mech_config)"
    and "paymentType w (rc_priority_mech_address config_values) = PAYMENT_TYPE_NVM"
    and "tracker = mapPaymentTypeBalanceTrackers w (rc_mech_marketplace_contract config_values)
                     PAYMENT_TYPE_NVM"
    and "nft_balanceOf w (subscriptionNFT w tracker) (crypto_address w)
           (subscriptionTokenId w tracker)
           < maxDeliveryRate w (rc_priority_mech_address config_values)"
    and "\<not> use_prepaid"
  shows "marketplace_interact c w mech_config prompt priority_mech use_prepaid use_offchain tool
           extra_attributes private_key_path confirmation_type retries timeout sleep
         = Run (custom_notice priority_mech
                  @ [WssConnect (wss_endpoint mech_config), Print ''Fetching Mech Info...'']
                  @ info_reads (rc_mech_marketplace_contract config_values)
                      (rc_priority_mech_address config_values)
                  @ [VerifyTool,
                     RegisterHandlers (rc_mech_marketplace_contract config_values)
                       (fst (get_event_signatures w (marketplace_abi w)))
                       (snd (get_event_signatures w (marketplace_abi w))),
                     Print ''Nevermined Mech detected, subscription credits to be used'',
                     EthCall tracker ''subscriptionNFT'',
                     EthCall tracker ''subscriptionTokenId'',
                     EthCall (subscriptionNFT w tracker) ''balanceOf'',
                     Print ''  - Sender Subscription balance low. Needed: {price}, Actual: {requester_balance}'',
                     Print ''  - Sender Address: {requester}''],
                Inl (SystemExit 1))
       \<and> filter is_submission
           (trace (marketplace_interact c w mech_config prompt priority_mech use_prepaid
                     use_offchain tool extra_attributes private_key_path confirmation_type
                     retries timeout sleep)) = []"
proof -
  let ?ca = "rc_mech_marketplace_contract config_values"
  let ?mech = "rc_priority_mech_address config_values"
  have valid: "paymentType w ?mech \<in> set [PAYMENT_TYPE_NATIVE, PAYMENT_TYPE_TOKEN, PAYMENT_TYPE_NVM]"
    using assms(5) by simp
  note info = fetch_mech_info_valid[OF valid, of ?ca]
  have pre: "preflight c w mech_config priority_mech use_prepaid tool private_key_path
        = (custom_notice priority_mech
                  @ [WssConnect (wss_endpoint mech_config), Print ''Fetching Mech Info...'']
                  @ info_reads ?ca ?mech
                  @ [VerifyTool,
                     RegisterHandlers ?ca
                       (fst (get_event_signatures w (marketplace_abi w)))
                       (snd (get_event_signatures w (marketplace_abi w))),
                     Print ''Nevermined Mech detected, subscription credits to be used'',
                     EthCall tracker ''subscriptionNFT'',
                     EthCall tracker ''subscriptionTokenId'',
                     EthCall (subscriptionNFT w tracker) ''balanceOf'',
                     Print ''  - Sender Subscription balance low. Needed: {price}, Actual: {requester_balance}'',
                     Print ''  - Sender Address: {requester}''],
                Inl (SystemExit 1))"
    unfolding preflight_started[OF assms(1-3)] Let_def assms(4)[symmetric] info
    using assms(5-8) payment_types_distinct
    by (simp add: resolve_price_def check_subscription_def
        fetch_requester_nvm_subscription_balance_def io_defs Let_def)
  show ?thesis
    unfolding marketplace_interact_stops[OF pre]
    by (simp add: custom_notice_def info_reads_def split: option.splits)
qed

text \<open>
  C7. Take a call that reaches the resolution of a mech whose payment type is the
  subscription one, where the requester holds a number of units that is not negative.
  With prepayment the three reads of C7 are made, but the balance is compared with a
  price that line 774 has already set to zero, so the comparison of line 790 never
  holds: the preparation returns with price zero and the call goes on to send the
  request, whatever the max delivery rate of the mech. Without prepayment the same
  balances end the call with status 1 as soon as the units held are below the max
  delivery rate.
\<close>

theorem prepaid_subscription_check_passes:
  assumes "mc_mech_marketplace_contract mech_config \<noteq> ADDRESS_ZERO"
    and "map_of CHAIN_TO_DEFAULT_MECH_MARKETPLACE_REQUEST_CONFIG
           (chain_id (ledger_config mech_config)) = Some defaults"
    and "path_exists w (key_path c private_key_path)"
    and "config_values = custom_config defaults priority_mech
                           (mc_mech_marketplace_contract mech_config)"
    and "paymentType w (rc_priority_mech_address config_values) = PAYMENT_TYPE_NVM"
    and "tracker = mapPaymentTypeBalanceTrackers w (rc_mech_marketplace_contract config_values)
                     PAYMENT_TYPE_NVM"
    and "0 \<le> nft_balanceOf w (subscriptionNFT w tracker) (crypto_address w)
                (subscriptionTokenId w tracker)"
  shows "preflight c w mech_config priority_mech True tool private_key_path
         = (custom_notice priority_mech
              @ [WssConnect (wss_endpoint mech_config), Print ''Fetching Mech Info...'']
              @ info_reads (rc_mech_marketplace_contract config_values)
                  (rc_priority_mech_address config_values)
              @ [VerifyTool,
                 RegisterHandlers (rc_mech_marketplace_contract config_values)
                   (fst (get_event_signatures w (marketplace_abi w)))
                   (snd (get_event_signatures w (marketplace_abi w))),
                 Print ''Prepaid request to be used, skipping payment'',
                 Print ''Nevermined Mech detected, subscription credits to be used'',
                 EthCall tracker ''subscriptionNFT'',
                 EthCall tracker ''subscriptionTokenId'',
                 EthCall (subscriptionNFT w tracker) ''balanceOf''],
            Inr (Some (rc_mech_marketplace_contract config_values,
                       config_values
                         \<lparr>rc_delivery_rate :=
                            Some (maxDeliveryRate w (rc_priority_mech_address config_values)),
                          rc_payment_type := Some PAYMENT_TYPE_NVM\<rparr>,
                       verify_or_retrieve_tool w
                         (serviceId w (rc_priority_mech_address config_values)) tool,
                       0)))
       \<and> (nft_balanceOf w (subscriptionNFT w tracker) (crypto_address w)
             (subscriptionTokenId w tracker)
             < maxDeliveryRate w (rc_priority_mech_address config_values)
           \<longrightarrow> returned
                 (marketplace_interact c w mech_config prompt priority_mech False use_offchain
                    tool extra_attributes private_key_path confirmation_type retries timeout
                    sleep)
               = Some (Inl (SystemExit 1)))"
proof -
  let ?ca = "rc_mech_marketplace_contract config_values"
  let ?mech = "rc_priority_mech_address config_values"
  have valid: "paymentType w ?mech \<in> set [PAYMENT_TYPE_NATIVE, PAYMENT_TYPE_TOKEN, PAYMENT_TYPE_NVM]"
    using assms(5) by simp
  note info = fetch_mech_info_valid[OF valid, of ?ca]
  have quiet: "check_prepaid_balances w tracker PAYMENT_TYPE_NVM (maxDeliveryRate w ?mech)
               = ([], Inr ())"
    using payment_types_distinct by (simp add: check_prepaid_balances_def io_defs)
  have pre: "preflight c w mech_config priority_mech True tool private_key_path
         = (custom_notice priority_mech
              @ [WssConnect (wss_endpoint mech_config), Print ''Fetching Mech Info...'']
              @ info_reads ?ca ?mech
              @ [VerifyTool,
                 RegisterHandlers ?ca
                   (fst (get_event_signatures w (marketplace_abi w)))
                   (snd (get_event_signatures w (marketplace_abi w))),
                 Print ''Prepaid request to be used, skipping payment'',
                 Print ''Nevermined Mech detected, subscription credits to be used'',
                 EthCall tracker ''subscriptionNFT'',
                 EthCall tracker ''subscriptionTokenId'',
                 EthCall (subscriptionNFT w tracker) ''balanceOf''],
            Inr (Some (?ca,
                       config_values
                         \<lparr>rc_delivery_rate := Some (maxDeliveryRate w ?mech),
                          rc_payment_type := Some PAYMENT_TYPE_NVM\<rparr>,
                       verify_or_retrieve_tool w (serviceId w ?mech) tool,
                       0)))"
    unfolding preflight_started[OF assms(1-3)] Let_def assms(4)[symmetric] info
    using assms(5-7) quiet
    by (simp add: resolve_price_def check_subscription_def
        fetch_requester_nvm_subscription_balance_def io_defs Let_def)
  have sibling: "returned
                 (marketplace_interact c w mech_config prompt priority_mech False use_offchain
                    tool extra_attributes private_key_path confirmation_type retries timeout
                    sleep)
               = Some (Inl (SystemExit 1))"
    if low: "nft_balanceOf w (subscriptionNFT w tracker) (crypto_address w)
               (subscriptionTokenId w tracker) < maxDeliveryRate w ?mech"
    using unprepaid_subscription_low_exits[OF assms(1-6) low, of False prompt use_offchain tool
        extra_attributes confirmation_type retries timeout sleep]
    by simp
  show ?thesis using pre sibling by blast
qed

theorem prepaid_subscription_check_passes_witness:
  "paymentType (sample_world PAYMENT_TYPE_NVM 9 2 always_sent)
     ''0x478ad20eD958dCC5AD4ABa6F4E4cc51e07a840E4'' = PAYMENT_TYPE_NVM
   \<and> maxDeliveryRate (sample_world PAYMENT_TYPE_NVM 9 2 always_sent)
       ''0x478ad20eD958dCC5AD4ABa6F4E4cc51e07a840E4'' = 5
   \<and> nft_balanceOf (sample_world PAYMENT_TYPE_NVM 9 2 always_sent) ''0xSubscription''
       ''0xRequester'' 7 = 2
   \<and> preflight sample_constants (sample_world PAYMENT_TYPE_NVM 9 2 always_sent)
        (sample_config 100) None True None None
      = ([WssConnect ''wss://rpc'', Print ''Fetching Mech Info...'',
          EthCall ''0x478ad20eD958dCC5AD4ABa6F4E4cc51e07a840E4'' ''paymentType'',
          EthCall ''0x478ad20eD958dCC5AD4ABa6F4E4cc51e07a840E4'' ''maxDeliveryRate'',
          EthCall ''0x478ad20eD958dCC5AD4ABa6F4E4cc51e07a840E4'' ''serviceId'',
          EthCall ''0x735FAAb1c4Ec41128c367AFb5c3baC73509f70bB'' ''mapPaymentTypeBalanceTrackers'',
          VerifyTool,
          RegisterHandlers ''0x735FAAb1c4Ec41128c367AFb5c3baC73509f70bB'' [] [],
          Print ''Prepaid request to be used, skipping payment'',
          Print ''Nevermined Mech detected, subscription credits to be used'',
          EthCall ''0xTracker'' ''subscriptionNFT'',
          EthCall ''0xTracker'' ''subscriptionTokenId'',
          EthCall ''0xSubscription'' ''balanceOf''],
         Inr (Some (''0x735FAAb1c4Ec41128c367AFb5c3baC73509f70bB'',
                    \<lparr>rc_mech_marketplace_contract = ''0x735FAAb1c4Ec41128c367AFb5c3baC73509f70bB'',
                     rc_priority_mech_address = ''0x478ad20eD958dCC5AD4ABa6F4E4cc51e07a840E4'',
                     rc_response_timeout = 300,
                     rc_payment_data = ''0x'',
                     rc_delivery_rate = Some 5,
                     rc_payment_type = Some PAYMENT_TYPE_NVM\<rparr>,
                    ''openai-gpt-4'', 0)))
   \<and> filter is_submission
       (trace
          (marketplace_interact sample_constants (sample_world PAYMENT_TYPE_NVM 9 2 always_sent)
             (sample_config 100) ''What is the weather?'' None True False None None None
             ON_CHAIN None None None))
      = [BuildTx ''0x735FAAb1c4Ec41128c367AFb5c3baC73509f70bB'' ''request'' 0, SignTx, SendTx]
   \<and> returned
       (marketplace_interact sample_constants (sample_world PAYMENT_TYPE_NVM 9 2 always_sent)
          (sample_config 100) ''What is the weather?'' None True False None None None
          ON_CHAIN None None None)
      = Some (Inr (Some (JObj [(''result'', JStr ''done'')])))
   \<and> returned
       (marketplace_interact sample_constants (sample_world PAYMENT_TYPE_NVM 9 2 always_sent)
          (sample_config 100) ''What is the weather?'' None False False None None None
          ON_CHAIN None None None)
      = Some (Inl (SystemExit 1))"
proof -
  let ?w = "sample_world PAYMENT_TYPE_NVM 9 2 always_sent"
  have h1: "mc_mech_marketplace_contract (sample_config 100) \<noteq> ADDRESS_ZERO"
    by (simp add: sample_config_def ADDRESS_ZERO_def)
  have h2: "map_of CHAIN_TO_DEFAULT_MECH_MARKETPLACE_REQUEST_CONFIG
              (chain_id (ledger_config (sample_config 100))) = Some sample_defaults"
    by (simp add: sample_config_def sample_defaults_def
        CHAIN_TO_DEFAULT_MECH_MARKETPLACE_REQUEST_CONFIG_def)
  have h3: "path_exists ?w (key_path sample_constants None)"
    by (simp add: sample_world_def)
  have h4: "sample_defaults = custom_config sample_defaults None
              (mc_mech_marketplace_contract (sample_config 100))"
    by (simp add: custom_config_def)
  have h5: "paymentType ?w (rc_priority_mech_address sample_defaults) = PAYMENT_TYPE_NVM"
    by (simp add: sample_world_def)
  have h6: "''0xTracker'' = mapPaymentTypeBalanceTrackers ?w
              (rc_mech_marketplace_contract sample_defaults) PAYMENT_TYPE_NVM"
    by (simp add: sample_world_def)
  have h7: "0 \<le> nft_balanceOf ?w (subscriptionNFT ?w ''0xTracker'') (crypto_address ?w)
              (subscriptionTokenId ?w ''0xTracker'')"
    by (simp add: sample_world_def)
  have low: "nft_balanceOf ?w (subscriptionNFT ?w ''0xTracker'') (crypto_address ?w)
              (subscriptionTokenId ?w ''0xTracker'')
              < maxDeliveryRate ?w (rc_priority_mech_address sample_defaults)"
    by (simp add: sample_world_def)
  have v0: "paymentType ?w ''0x478ad20eD958dCC5AD4ABa6F4E4cc51e07a840E4'' = PAYMENT_TYPE_NVM"
    by (simp add: sample_world_def)
  have v1: "nft_balanceOf ?w ''0xSubscription'' ''0xRequester'' 7 = 2"
    by (simp add: sample_world_def)
  have v2: "maxDeliveryRate ?w ''0x478ad20eD958dCC5AD4ABa6F4E4cc51e07a840E4'' = 5"
    by (simp add: sample_world_def)
  have v3: "subscriptionNFT ?w ''0xTracker'' = ''0xSubscription''"
    by (simp add: sample_world_def)
  have g: "get_event_signatures ?w (marketplace_abi ?w) = ([], [])"
    by (simp add: get_event_signatures_def sample_world_def)
  have sent: "filter is_submission
       (trace
          (marketplace_interact sample_constants ?w
             (sample_config 100) ''What is the weather?'' None True False None None None
             ON_CHAIN None None None))
      = [BuildTx ''0x735FAAb1c4Ec41128c367AFb5c3baC73509f70bB'' ''request'' 0, SignTx, SendTx]"
    and result: "returned
       (marketplace_interact sample_constants ?w
          (sample_config 100) ''What is the weather?'' None True False None None None
          ON_CHAIN None None None)
      = Some (Inr (Some (JObj [(''result'', JStr ''done'')])))"
    by (simp_all add: run_defs always_sent_def)
  have v4: "serviceId ?w ''0x478ad20eD958dCC5AD4ABa6F4E4cc51e07a840E4'' = 1"
    "verify_or_retrieve_tool ?w 1 None = ''openai-gpt-4''"
    by (simp_all add: sample_world_def)
  note t = prepaid_subscription_check_passes [OF h1 h2 h3 h4 h5 h6 h7,
        where prompt = "''What is the weather?''"
          and use_offchain = False and tool = None and extra_attributes = None
          and confirmation_type = ON_CHAIN and retries = None and timeout = None
          and sleep = None]
  have pre: "preflight sample_constants ?w (sample_config 100) None True None None
      = ([WssConnect ''wss://rpc'', Print ''Fetching Mech Info...'',
          EthCall ''0x478ad20eD958dCC5AD4ABa6F4E4cc51e07a840E4'' ''paymentType'',
          EthCall ''0x478ad20eD958dCC5AD4ABa6F4E4cc51e07a840E4'' ''maxDeliveryRate'',
          EthCall ''0x478ad20eD958dCC5AD4ABa6F4E4cc51e07a840E4'' ''serviceId'',
          EthCall ''0x735FAAb1c4Ec41128c367AFb5c3baC73509f70bB'' ''mapPaymentTypeBalanceTrackers'',
          VerifyTool,
          RegisterHandlers ''0x735FAAb1c4Ec41128c367AFb5c3baC73509f70bB'' [] [],
          Print ''Prepaid request to be used, skipping payment'',
          Print ''Nevermined Mech detected, subscription credits to be used'',
          EthCall ''0xTracker'' ''subscriptionNFT'',
          EthCall ''0xTracker'' ''subscriptionTokenId'',
          EthCall ''0xSubscription'' ''balanceOf''],
         Inr (Some (''0x735FAAb1c4Ec41128c367AFb5c3baC73509f70bB'',
                    \<lparr>rc_mech_marketplace_contract = ''0x735FAAb1c4Ec41128c367AFb5c3baC73509f70bB'',
                     rc_priority_mech_address = ''0x478ad20eD958dCC5AD4ABa6F4E4cc51e07a840E4'',
                     rc_response_timeout = 300,
                     rc_payment_data = ''0x'',
                     rc_delivery_rate = Some 5,
                     rc_payment_type = Some PAYMENT_TYPE_NVM\<rparr>,
                    ''openai-gpt-4'', 0)))"
    using t[THEN conjunct1]
    by (simp add: custom_notice_def info_reads_def sample_config_def sample_defaults_def g
        v2 v3 v4)
  have sibling: "returned
       (marketplace_interact sample_constants ?w
          (sample_config 100) ''What is the weather?'' None False False None None None
          ON_CHAIN None None None)
      = Some (Inl (SystemExit 1))"
    using t[THEN conjunct2] low by blast
  show ?thesis
    using v0 v1 v2 pre sent result sibling by blast
qed

section \<open>The value attached to the request transaction\<close>

lemmas io_leaf_defs = emit_def done_io_def raise_io_def

lemma request_values_append:
  "request_values (xs @ ys) = request_values xs @ request_values ys"
  by (induction xs rule: request_values.induct) simp_all

lemma request_values_andthen:
  "request_values (fst (andthen m f))
   = request_values (fst m)
     @ (case snd m of Inl e \<Rightarrow> [] | Inr a \<Rightarrow> request_values (fst (f a)))"
  by (cases m) (auto simp: andthen_def request_values_append split: sum.splits prod.splits)

lemma andthen_returnsD:
  assumes "andthen m f = (es, Inr b)"
  shows "\<exists>es1 a es2. m = (es1, Inr a) \<and> f a = (es2, Inr b) \<and> es = es1 @ es2"
  using assms by (cases m) (auto simp: andthen_def split: sum.splits prod.splits)

lemma approve_price_tokens_values:
  "request_values (fst (approve_price_tokens w token tracker price)) = []"
  by (simp add: approve_price_tokens_def Let_def request_values_andthen io_leaf_defs
      split: send_outcome.splits)

lemma check_prepaid_balances_values:
  "request_values (fst (check_prepaid_balances w tracker payment_type max_delivery_rate)) = []"
  by (simp add: check_prepaid_balances_def Let_def request_values_andthen io_leaf_defs split: sum.splits)

lemma resolve_price_values:
  "request_values (fst (resolve_price w chain use_prepaid payment_type max_delivery_rate tracker)) = []"
  by (simp add: resolve_price_def Let_def request_values_andthen approve_price_tokens_values
      check_prepaid_balances_values io_leaf_defs split: sum.splits option.splits)

lemma check_subscription_values:
  "request_values (fst (check_subscription w payment_type tracker price)) = []"
  by (simp add: check_subscription_def fetch_requester_nvm_subscription_balance_def Let_def
      request_values_andthen io_leaf_defs split: sum.splits)

lemma fetch_mech_info_values:
  "request_values (fst (fetch_mech_info w contract mech)) = []"
  by (simp add: fetch_mech_info_def info_reads_def Let_def request_values_andthen io_leaf_defs
      split: sum.splits)

lemma preflight_values:
  "request_values (fst (preflight c w mech_config priority_mech use_prepaid tool private_key_path)) = []"
  by (simp add: preflight_def Let_def request_values_andthen request_values_append
      fetch_mech_info_values resolve_price_values check_subscription_values
      custom_notice_def io_leaf_defs split: sum.splits option.splits prod.splits)

lemma fetch_mech_info_returns:
  assumes "fetch_mech_info w contract mech = (es, Inr x)"
  shows "x = (paymentType w mech, serviceId w mech, maxDeliveryRate w mech,
              mapPaymentTypeBalanceTrackers w contract (paymentType w mech), mech)
         \<and> paymentType w mech \<in> set [PAYMENT_TYPE_NATIVE, PAYMENT_TYPE_TOKEN, PAYMENT_TYPE_NVM]"
proof (cases "paymentType w mech \<in> set [PAYMENT_TYPE_NATIVE, PAYMENT_TYPE_TOKEN, PAYMENT_TYPE_NVM]")
  case True
  with assms fetch_mech_info_valid[OF True, of contract] show ?thesis by simp
next
  case False
  with assms fetch_mech_info_invalid[OF False, of contract] show ?thesis by simp
qed

lemma resolve_price_returns:
  assumes "resolve_price w chain use_prepaid payment_type max_delivery_rate tracker
           = (es, Inr (Some p))"
  shows "p = (if \<not> use_prepaid \<and> payment_type \<noteq> PAYMENT_TYPE_TOKEN then max_delivery_rate else 0)"
  using assms
  by (auto simp: resolve_price_def Let_def io_defs
      split: if_splits option.splits sum.splits prod.splits)

lemma check_subscription_returns:
  assumes "check_subscription w payment_type tracker p = (es, Inr p')"
  shows "p' = (if payment_type = PAYMENT_TYPE_NVM then 0 else p)"
  using assms
  by (auto simp: check_subscription_def Let_def io_defs
      split: if_splits sum.splits prod.splits)

lemma preflight_price:
  assumes pre: "preflight c w mech_config priority_mech use_prepaid tool private_key_path
                = (es0, Inr (Some (contract_address, request_config, tool', price)))"
    and a2: "map_of CHAIN_TO_DEFAULT_MECH_MARKETPLACE_REQUEST_CONFIG
               (chain_id (ledger_config mech_config)) = Some defaults"
  shows "rc_priority_mech_address request_config
           = rc_priority_mech_address
               (custom_config defaults priority_mech (mc_mech_marketplace_contract mech_config))
       \<and> rc_payment_type request_config
           = Some (paymentType w (rc_priority_mech_address request_config))
       \<and> rc_delivery_rate request_config
           = Some (maxDeliveryRate w (rc_priority_mech_address request_config))
       \<and> price = (if \<not> use_prepaid
                       \<and> paymentType w (rc_priority_mech_address request_config)
                          = PAYMENT_TYPE_NATIVE
                    then maxDeliveryRate w (rc_priority_mech_address request_config) else 0)"
proof -
  have a1: "mc_mech_marketplace_contract mech_config \<noteq> ADDRESS_ZERO"
    using pre by (auto simp: preflight_def Let_def io_defs)
  have a3: "path_exists w (key_path c private_key_path)"
    using pre a1 a2 by (auto simp: preflight_def Let_def io_defs split: if_splits)
  define cv where "cv = custom_config defaults priority_mech
                          (mc_mech_marketplace_contract mech_config)"
  define mech where "mech = rc_priority_mech_address cv"
  note unfolded = pre[unfolded preflight_started[OF a1 a2 a3] Let_def, folded cv_def, folded mech_def]
  from andthen_returnsD[OF unfolded] obtain es1 es2 where
    rest: "andthen (fetch_mech_info w (rc_mech_marketplace_contract cv) mech)
             (\<lambda>(payment_type, service_id, max_delivery_rate, mech_payment_balance_tracker,
                 mech_contract).
                andthen
                  (emit [VerifyTool,
                         RegisterHandlers (rc_mech_marketplace_contract cv)
                           (fst (get_event_signatures w (marketplace_abi w)))
                           (snd (get_event_signatures w (marketplace_abi w)))])
                  (\<lambda>_. andthen
                          (resolve_price w (chain_id (ledger_config mech_config)) use_prepaid
                             payment_type max_delivery_rate mech_payment_balance_tracker)
                          (\<lambda>price.
                             case price of
                               None \<Rightarrow> done_io None
                             | Some price \<Rightarrow>
                                 andthen
                                   (check_subscription w payment_type
                                      mech_payment_balance_tracker price)
                                   (\<lambda>price.
                                      done_io
                                        (Some (rc_mech_marketplace_contract cv,
                                               cv\<lparr>rc_delivery_rate := Some max_delivery_rate,
                                                  rc_payment_type := Some payment_type\<rparr>,
                                               verify_or_retrieve_tool w service_id tool,
                                               price))))))
           = (es2, Inr (Some (contract_address, request_config, tool', price)))"
    by blast
  from andthen_returnsD[OF rest] obtain es3 x es4 where
    info: "fetch_mech_info w (rc_mech_marketplace_contract cv) mech = (es3, Inr x)"
    and after: "(case x of (payment_type, service_id, max_delivery_rate,
                   mech_payment_balance_tracker, mech_contract) \<Rightarrow>
                andthen
                  (emit [VerifyTool,
                         RegisterHandlers (rc_mech_marketplace_contract cv)
                           (fst (get_event_signatures w (marketplace_abi w)))
                           (snd (get_event_signatures w (marketplace_abi w)))])
                  (\<lambda>_. andthen
                          (resolve_price w (chain_id (ledger_config mech_config)) use_prepaid
                             payment_type max_delivery_rate mech_payment_balance_tracker)
                          (\<lambda>price.
                             case price of
                               None \<Rightarrow> done_io None
                             | Some price \<Rightarrow>
                                 andthen
                                   (check_subscription w payment_type
                                      mech_payment_balance_tracker price)
                                   (\<lambda>price.
                                      done_io
                                        (Some (rc_mech_marketplace_contract cv,
                                               cv\<lparr>rc_delivery_rate := Some max_delivery_rate,
                                                  rc_payment_type := Some payment_type\<rparr>,
                                               verify_or_retrieve_tool w service_id tool,
                                               price))))))
           = (es4, Inr (Some (contract_address, request_config, tool', price)))"
    by blast
  let ?pt = "paymentType w mech" and ?mdr = "maxDeliveryRate w mech"
  let ?tr = "mapPaymentTypeBalanceTrackers w (rc_mech_marketplace_contract cv) (paymentType w mech)"
  note x = fetch_mech_info_returns[OF info]
  have after': "andthen
                  (emit [VerifyTool,
                         RegisterHandlers (rc_mech_marketplace_contract cv)
                           (fst (get_event_signatures w (marketplace_abi w)))
                           (snd (get_event_signatures w (marketplace_abi w)))])
                  (\<lambda>_. andthen
                          (resolve_price w (chain_id (ledger_config mech_config)) use_prepaid
                             ?pt ?mdr ?tr)
                          (\<lambda>price.
                             case price of
                               None \<Rightarrow> done_io None
                             | Some price \<Rightarrow>
                                 andthen (check_subscription w ?pt ?tr price)
                                   (\<lambda>price.
                                      done_io
                                        (Some (rc_mech_marketplace_contract cv,
                                               cv\<lparr>rc_delivery_rate := Some ?mdr,
                                                  rc_payment_type := Some ?pt\<rparr>,
                                               verify_or_retrieve_tool w (serviceId w mech) tool,
                                               price)))))
           = (es4, Inr (Some (contract_address, request_config, tool', price)))"
    using after x by simp
  from andthen_returnsD[OF after'] obtain es8 where
    after'': "andthen
                (resolve_price w (chain_id (ledger_config mech_config)) use_prepaid
                   ?pt ?mdr ?tr)
                (\<lambda>price.
                   case price of
                     None \<Rightarrow> done_io None
                   | Some price \<Rightarrow>
                       andthen (check_subscription w ?pt ?tr price)
                         (\<lambda>price.
                            done_io
                              (Some (rc_mech_marketplace_contract cv,
                                     cv\<lparr>rc_delivery_rate := Some ?mdr,
                                        rc_payment_type := Some ?pt\<rparr>,
                                     verify_or_retrieve_tool w (serviceId w mech) tool,
                                     price))))
              = (es8, Inr (Some (contract_address, request_config, tool', price)))"
    by blast
  from andthen_returnsD[OF after''] obtain es5 es6 po where
    rp: "resolve_price w (chain_id (ledger_config mech_config)) use_prepaid ?pt ?mdr ?tr
         = (es5, Inr po)"
    and after2: "(case po of
                    None \<Rightarrow> done_io None
                  | Some price \<Rightarrow>
                      andthen (check_subscription w ?pt ?tr price)
                        (\<lambda>price.
                           done_io
                             (Some (rc_mech_marketplace_contract cv,
                                    cv\<lparr>rc_delivery_rate := Some ?mdr, rc_payment_type := Some ?pt\<rparr>,
                                    verify_or_retrieve_tool w (serviceId w mech) tool,
                                    price))))
                 = (es6, Inr (Some (contract_address, request_config, tool', price)))"
    by blast
  from after2 obtain p0 where po: "po = Some p0"
    by (cases po) (auto simp: done_io_def)
  from andthen_returnsD[OF after2[unfolded po option.case]] obtain es7 p1 es9 where
    cs: "check_subscription w ?pt ?tr p0 = (es7, Inr p1)"
    and fin0: "done_io (Some (rc_mech_marketplace_contract cv,
                    cv\<lparr>rc_delivery_rate := Some ?mdr, rc_payment_type := Some ?pt\<rparr>,
                    verify_or_retrieve_tool w (serviceId w mech) tool, p1))
              = (es9, Inr (Some (contract_address, request_config, tool', price)))"
    by blast
  have fin: "Some (rc_mech_marketplace_contract cv,
                    cv\<lparr>rc_delivery_rate := Some ?mdr, rc_payment_type := Some ?pt\<rparr>,
                    verify_or_retrieve_tool w (serviceId w mech) tool, p1)
              = Some (contract_address, request_config, tool', price)"
    using fin0 by (simp add: done_io_def)
  have rc: "request_config = cv\<lparr>rc_delivery_rate := Some ?mdr, rc_payment_type := Some ?pt\<rparr>"
    and p1: "price = p1"
    using fin by simp_all
  have mech_rc: "rc_priority_mech_address request_config = mech"
    by (simp add: rc mech_def)
  have "p0 = (if \<not> use_prepaid \<and> ?pt \<noteq> PAYMENT_TYPE_TOKEN then ?mdr else 0)"
    using resolve_price_returns[OF rp[unfolded po]] .
  moreover have "p1 = (if ?pt = PAYMENT_TYPE_NVM then 0 else p0)"
    using check_subscription_returns[OF cs] .
  ultimately have "price = (if \<not> use_prepaid \<and> ?pt = PAYMENT_TYPE_NATIVE then ?mdr else 0)"
    using x p1 payment_types_distinct by auto
  then show ?thesis unfolding mech_rc by (simp add: rc mech_def cv_def)
qed


lemma request_attempt_values:
  "request_values (fst (request_attempt w contract price k)) = [price]"
  by (cases "request_send w k") (simp_all add: request_attempt_def)

lemma submission_loop_values:
  "submission_loop took (request_attempt w contract price) msg R D S t now = (n, es, r)
   \<Longrightarrow> set (request_values es) \<subseteq> {price}"
proof (induction took "request_attempt w contract price" msg R D S t now arbitrary: n es r
    rule: submission_loop.induct)
  case (1 took msg retries deadline sleep tries now)
  note unfold = submission_loop.simps[of took "request_attempt w contract price" msg retries
      deadline sleep tries now]
  show ?case
  proof (cases "int tries < retries \<and> now < deadline")
    case False
    with "1.prems" show ?thesis by (auto simp: unfold)
  next
    case go: True
    obtain es1 a where b: "request_attempt w contract price (Suc tries) = (es1, a)"
      by (cases "request_attempt w contract price (Suc tries)")
    have v1: "request_values es1 = [price]"
      using request_attempt_values[of w contract price "Suc tries"] b by simp
    show ?thesis
    proof (cases a)
      case (Returned x)
      with go b v1 "1.prems" show ?thesis by (auto simp: unfold)
    next
      case Raised
      show ?thesis
      proof (cases "sleep < 0")
        case True
        with go b v1 Raised "1.prems" show ?thesis
          by (auto simp: unfold request_values_append)
      next
        case False
        obtain n' es' r' where
          rec: "submission_loop took (request_attempt w contract price) msg retries deadline
                  sleep (Suc tries) (now + took (Suc tries) + sleep) = (n', es', r')"
          using prod_cases3 by blast
        have ih: "set (request_values es') \<subseteq> {price}"
          using "1.hyps"[OF go b[symmetric] Raised False rec] .
        have "es = es1 @ [Print msg, Sleep sleep] @ es'"
          using go b Raised False rec "1.prems" by (auto simp: unfold)
        then show ?thesis using ih v1 by (auto simp: request_values_append)
      qed
    qed
  qed
qed

lemma send_marketplace_request_values:
  "set (request_values (fst (snd (send_marketplace_request c w contract gas prompt tool
          request_config extra_attributes price retries timeout sleep)))) \<subseteq> {price}"
proof (cases "push_metadata_to_ipfs w \<noteq> None \<and> rc_payment_type request_config \<noteq> None
              \<and> to_checksum_address w (rc_priority_mech_address request_config) \<noteq> None")
  case True
  obtain n es r where loop:
    "submission_loop (lapse w) (request_attempt w contract price)
       ''Error occured while sending the transaction: {e}; Retrying in {sleep}''
       (or_default retries (MAX_RETRIES c))
       (now_timestamp w + or_default timeout (TIMEOUT c))
       (or_default sleep (WAIT_SLEEP c)) 0 (now_timestamp w + lapse w 0) = (n, es, r)"
    using prod_cases3 by blast
  from submission_loop_values[OF loop] show ?thesis
    unfolding send_marketplace_request_started[OF True[THEN conjunct1]
        True[THEN conjunct2, THEN conjunct1] True[THEN conjunct2, THEN conjunct2] loop]
    by simp
next
  case False
  then show ?thesis
    by (auto simp: send_marketplace_request_def method_args_def raise_io_def
        split: option.splits)
qed

lemma cancel_values: "request_values (map CancelTask ts) = []"
  by (induction ts) simp_all

lemma wait_for_marketplace_data_url_values:
  "request_values (fst (wait_for_marketplace_data_url w request_id subgraph confirmation_type)) = []"
  by (simp add: wait_for_marketplace_data_url_def create_tasks_def wait_for_tasks_def Let_def
      request_values_andthen request_values_append cancel_values io_leaf_defs
      split: sum.splits)

lemma andthen_values_subset:
  assumes "set (request_values (fst m)) \<subseteq> S" and "\<And>a. request_values (fst (f a)) = []"
  shows "set (request_values (fst (andthen m f))) \<subseteq> S"
  using assms by (simp add: request_values_andthen split: sum.splits)

lemma print_andthen_values:
  "request_values (fst (andthen (emit [Print s]) (\<lambda>_. m))) = request_values (fst m)"
  by (simp add: request_values_andthen emit_def)

lemma submit_onchain_values:
  "set (request_values (fst (submit_onchain c w mech_config contract prompt tool request_config
          extra_attributes price confirmation_type retries timeout sleep))) \<subseteq> {price}"
  unfolding submit_onchain_def print_andthen_values
  by (rule andthen_values_subset[OF send_marketplace_request_values])
     (simp add: Let_def request_values_andthen request_values_append
        wait_for_marketplace_data_url_values request_id_to_int_def io_leaf_defs
        split: sum.splits option.splits)

text \<open>
  C5, as amended. In an on-chain call on a chain that has a default configuration, every
  request transaction that is built carries the same value: the max delivery rate of
  the mech when the call is not prepaid and the payment type of the mech is the native
  one, and zero in every other case, that is for the token and the subscription type
  and for every prepaid call.
\<close>

theorem request_value_attached:
  assumes "\<not> use_offchain"
    and "map_of CHAIN_TO_DEFAULT_MECH_MARKETPLACE_REQUEST_CONFIG
           (chain_id (ledger_config mech_config)) = Some defaults"
    and "mech = rc_priority_mech_address
                  (custom_config defaults priority_mech (mc_mech_marketplace_contract mech_config))"
  shows "set (request_values
               (trace (marketplace_interact c w mech_config prompt priority_mech use_prepaid
                         use_offchain tool extra_attributes private_key_path
                         confirmation_type retries timeout sleep)))
         \<subseteq> {if \<not> use_prepaid \<and> paymentType w mech = PAYMENT_TYPE_NATIVE
              then maxDeliveryRate w mech else 0}"
proof -
  obtain es0 r0 where pre:
    "preflight c w mech_config priority_mech use_prepaid tool private_key_path = (es0, r0)"
    by (cases "preflight c w mech_config priority_mech use_prepaid tool private_key_path")
  have quiet: "request_values es0 = []"
    using preflight_values[of c w mech_config priority_mech use_prepaid tool private_key_path]
    by (simp add: pre)
  show ?thesis
  proof (cases r0)
    case (Inl e)
    with pre quiet show ?thesis by (simp add: marketplace_interact_def)
  next
    case (Inr x)
    show ?thesis
    proof (cases x)
      case None
      with Inr pre quiet show ?thesis by (simp add: marketplace_interact_def)
    next
      case (Some y)
      obtain contract_address request_config tool' price where
        y: "y = (contract_address, request_config, tool', price)"
        by (cases y)
      have pre': "preflight c w mech_config priority_mech use_prepaid tool private_key_path
                  = (es0, Inr (Some (contract_address, request_config, tool', price)))"
        using pre Inr Some y by simp
      note price = preflight_price[OF pre' assms(2)]
      have p: "price = (if \<not> use_prepaid \<and> paymentType w mech = PAYMENT_TYPE_NATIVE
                        then maxDeliveryRate w mech else 0)"
        using price assms(3) by simp
      obtain es1 r1 where sub:
        "submit_onchain c w mech_config contract_address prompt tool' request_config
           extra_attributes price confirmation_type retries timeout sleep = (es1, r1)"
        by (cases "submit_onchain c w mech_config contract_address prompt tool' request_config
           extra_attributes price confirmation_type retries timeout sleep")
      have v: "set (request_values es1) \<subseteq> {price}"
        using submit_onchain_values[of c w mech_config contract_address prompt tool'
            request_config extra_attributes price confirmation_type retries timeout sleep]
        by (simp add: sub)
      have "trace (marketplace_interact c w mech_config prompt priority_mech use_prepaid
                     use_offchain tool extra_attributes private_key_path
                     confirmation_type retries timeout sleep) = es0 @ es1"
        unfolding marketplace_interact_onchain[OF pre' assms(1)]
        by (simp add: sub andthen_def emit_def)
      then show ?thesis using v quiet unfolding p by (simp add: request_values_append)
    qed
  qed
qed

theorem request_value_attached_witness:
  "paymentType (sample_world PAYMENT_TYPE_NATIVE 9 0 always_sent)
     ''0x478ad20eD958dCC5AD4ABa6F4E4cc51e07a840E4'' = PAYMENT_TYPE_NATIVE
   \<and> maxDeliveryRate (sample_world PAYMENT_TYPE_NATIVE 9 0 always_sent)
       ''0x478ad20eD958dCC5AD4ABa6F4E4cc51e07a840E4'' = 5
   \<and> request_values
       (trace (marketplace_interact sample_constants
                 (sample_world PAYMENT_TYPE_NATIVE 9 0 always_sent) (sample_config 100)
                 ''What is the weather?'' None False False None None None ON_CHAIN
                 None None None)) = [5]
   \<and> set (request_values
       (trace (marketplace_interact sample_constants
                 (sample_world PAYMENT_TYPE_NATIVE 9 0 always_sent) (sample_config 100)
                 ''What is the weather?'' None False False None None None ON_CHAIN
                 None None None))) \<subseteq> {5}"
proof -
  let ?w = "sample_world PAYMENT_TYPE_NATIVE 9 0 always_sent"
  have h1: "\<not> False" by simp
  have h2: "map_of CHAIN_TO_DEFAULT_MECH_MARKETPLACE_REQUEST_CONFIG
              (chain_id (ledger_config (sample_config 100))) = Some sample_defaults"
    by (simp add: sample_config_def sample_defaults_def
        CHAIN_TO_DEFAULT_MECH_MARKETPLACE_REQUEST_CONFIG_def)
  have h3: "''0x478ad20eD958dCC5AD4ABa6F4E4cc51e07a840E4'' = rc_priority_mech_address
              (custom_config sample_defaults None
                 (mc_mech_marketplace_contract (sample_config 100)))"
    by (simp add: custom_config_def sample_defaults_def)
  have v1: "paymentType ?w ''0x478ad20eD958dCC5AD4ABa6F4E4cc51e07a840E4'' = PAYMENT_TYPE_NATIVE"
    by (simp add: sample_world_def)
  have v2: "maxDeliveryRate ?w ''0x478ad20eD958dCC5AD4ABa6F4E4cc51e07a840E4'' = 5"
    by (simp add: sample_world_def)
  have v3: "request_values
       (trace (marketplace_interact sample_constants ?w (sample_config 100)
                 ''What is the weather?'' None False False None None None ON_CHAIN
                 None None None)) = [5]"
    by (simp add: run_defs always_sent_def)
  have "set (request_values
       (trace (marketplace_interact sample_constants ?w (sample_config 100)
                 ''What is the weather?'' None False False None None None ON_CHAIN
                 None None None))) \<subseteq> {5}"
    using request_value_attached [OF h1 h2 h3, where w = ?w and c = sample_constants
        and use_prepaid = False and prompt = "''What is the weather?''" and tool = None
        and extra_attributes = None and private_key_path = None
        and confirmation_type = ON_CHAIN and retries = None and timeout = None
        and sleep = None]
    by (simp add: v1 v2)
  with v1 v2 v3 show ?thesis by simp
qed

theorem prepaid_native_value_counterexample:
  "paymentType (sample_world PAYMENT_TYPE_NATIVE 9 0 always_sent)
     ''0x478ad20eD958dCC5AD4ABa6F4E4cc51e07a840E4'' = PAYMENT_TYPE_NATIVE
   \<and> maxDeliveryRate (sample_world PAYMENT_TYPE_NATIVE 9 0 always_sent)
       ''0x478ad20eD958dCC5AD4ABa6F4E4cc51e07a840E4'' = 5
   \<and> request_values
       (trace (marketplace_interact sample_constants
                 (sample_world PAYMENT_TYPE_NATIVE 9 0 always_sent) (sample_config 100)
                 ''What is the weather?'' None True False None None None ON_CHAIN
                 None None None)) = [0]"
  by (simp add: run_defs always_sent_def)

section \<open>Submissions that never succeed\<close>

lemma submit_onchain_unable:
  assumes "send_marketplace_request c w marketplace_contract (gas_limit mech_config) prompt tool
             request_config extra_attributes price retries timeout sleep = (n, es, Inr None)"
  shows "submit_onchain c w mech_config marketplace_contract prompt tool request_config
           extra_attributes price confirmation_type retries timeout sleep
         = ([Print ''Sending Mech Marketplace request...''] @ es
              @ [Print ''Unable to send request''], Inr None)"
  using assms by (simp add: submit_onchain_def andthen_def emit_def done_io_def)

lemma preflight_payment_type:
  assumes pre: "preflight c w mech_config priority_mech use_prepaid tool private_key_path
                = (es0, Inr (Some (contract_address, request_config, tool', price)))"
  shows "rc_payment_type request_config \<noteq> None"
proof -
  have a1: "mc_mech_marketplace_contract mech_config \<noteq> ADDRESS_ZERO"
    using pre by (auto simp: preflight_def Let_def io_defs)
  obtain defaults where a2:
    "map_of CHAIN_TO_DEFAULT_MECH_MARKETPLACE_REQUEST_CONFIG
       (chain_id (ledger_config mech_config)) = Some defaults"
    using pre a1
    by (cases "map_of CHAIN_TO_DEFAULT_MECH_MARKETPLACE_REQUEST_CONFIG
                 (chain_id (ledger_config mech_config))")
       (auto simp: preflight_def Let_def io_defs)
  from preflight_price[OF pre a2] show ?thesis by simp
qed

lemma test_time_exit:
  fixes T B :: rat
  shows "(start + took 0 + sum took {Suc 0..<Suc n} + of_nat (Suc n - Suc 0) * B < start + T)
         = (sum took {..n} + of_nat n * B < T)"
  using test_time_from_start[of "Suc n" start took B T]
  by (simp only: lessThan_Suc_atMost diff_Suc_1 zero_less_Suc)

text \<open>
  C6. Take an on-chain call that gets as far as the retry loop of the sender (the
  preparation returns, the metadata is pushed, the address of the mech is accepted),
  with a sleep that is not negative. If none of the attempts that the loop makes
  succeeds, the loop has ended because the retries are used up or the deadline has
  passed, \<open>send_marketplace_request\<close> returns \<open>None\<close>, and \<open>marketplace_interact\<close> prints
  \<open>Unable to send request\<close> and returns \<open>None\<close> to its caller: nothing is done after the
  message, in particular no receipt is awaited and no delivery watched.
\<close>

theorem exhausted_submission_reported:
  assumes pre: "preflight c w mech_config priority_mech use_prepaid tool private_key_path
                = (es0, Inr (Some (contract_address, request_config, tool', price)))"
    and onchain: "\<not> use_offchain"
    and sleep: "0 \<le> or_default sleep (WAIT_SLEEP c)"
    and pushed: "push_metadata_to_ipfs w \<noteq> None"
    and address: "to_checksum_address w (rc_priority_mech_address request_config) \<noteq> None"
    and sent: "send_marketplace_request c w contract_address (gas_limit mech_config) prompt tool'
                 request_config extra_attributes price retries timeout sleep = (n, es, r)"
    and none: "\<forall>k d. 0 < k \<and> k \<le> n \<longrightarrow> request_send w k \<noteq> Sent d"
  shows "r = Inr None
       \<and> \<not> (int n < or_default retries (MAX_RETRIES c)
            \<and> sum (lapse w) {..n} + of_nat n * or_default sleep (WAIT_SLEEP c)
                < or_default timeout (TIMEOUT c))
       \<and> marketplace_interact c w mech_config prompt priority_mech use_prepaid use_offchain tool
           extra_attributes private_key_path confirmation_type retries timeout sleep
         = Run (es0 @ [Print ''Sending Mech Marketplace request...''] @ es
                  @ [Print ''Unable to send request''], Inr None)"
proof -
  obtain n' es' r' where loop:
    "submission_loop (lapse w) (request_attempt w contract_address price)
       ''Error occured while sending the transaction: {e}; Retrying in {sleep}''
       (or_default retries (MAX_RETRIES c))
       (now_timestamp w + or_default timeout (TIMEOUT c))
       (or_default sleep (WAIT_SLEEP c)) 0 (now_timestamp w + lapse w 0) = (n', es', r')"
    using prod_cases3 by blast
  have eqs: "n = n'" "r = r'"
    using send_marketplace_request_started[OF pushed preflight_payment_type[OF pre] address loop]
      sent by simp_all
  note props = submission_loop_props[OF loop, folded eqs]
  have no_some: "r \<noteq> Inr (Some d)" for d
  proof
    assume "r = Inr (Some d)"
    then have "0 < n \<and> request_send w n = Sent d"
      using props by (simp add: request_attempt_returned)
    then show False using none by blast
  qed
  have no_err: "r \<noteq> Inl e" for e using props sleep by auto
  have r: "r = Inr None"
  proof (cases r)
    case (Inl e)
    then show ?thesis using no_err by simp
  next
    case (Inr x)
    then show ?thesis using no_some by (cases x) auto
  qed
  have exit: "\<not> (int n < or_default retries (MAX_RETRIES c)
            \<and> sum (lapse w) {..n} + of_nat n * or_default sleep (WAIT_SLEEP c)
                < or_default timeout (TIMEOUT c))"
    using props r unfolding test_time_exit by blast
  have "marketplace_interact c w mech_config prompt priority_mech use_prepaid use_offchain tool
           extra_attributes private_key_path confirmation_type retries timeout sleep
         = Run (es0 @ [Print ''Sending Mech Marketplace request...''] @ es
                  @ [Print ''Unable to send request''], Inr None)"
    unfolding marketplace_interact_onchain[OF pre onchain]
      submit_onchain_unable[OF sent[unfolded r]]
    by (simp add: andthen_def emit_def)
  with r exit show ?thesis by simp
qed

lemma sample_send_never:
  "send_marketplace_request sample_constants (sample_world PAYMENT_TYPE_NATIVE 9 0 never_sent)
     ''0x735FAAb1c4Ec41128c367AFb5c3baC73509f70bB'' 100000 prompt tool
     \<lparr>rc_mech_marketplace_contract = ''0x735FAAb1c4Ec41128c367AFb5c3baC73509f70bB'',
      rc_priority_mech_address = ''0x478ad20eD958dCC5AD4ABa6F4E4cc51e07a840E4'',
      rc_response_timeout = 300,
      rc_payment_data = ''0x'',
      rc_delivery_rate = Some 5,
      rc_payment_type = Some PAYMENT_TYPE_NATIVE\<rparr> None 5
     None None None
   = (3, [IpfsPush,
          Print ''  - Prompt uploaded: https://gateway.autonolas.tech/ipfs/{v1_file_hash_hex}'',
          BuildTx ''0x735FAAb1c4Ec41128c367AFb5c3baC73509f70bB'' ''request'' 5, SignTx, SendTx,
          Print ''Error occured while sending the transaction: {e}; Retrying in {sleep}'',
          Sleep 3,
          BuildTx ''0x735FAAb1c4Ec41128c367AFb5c3baC73509f70bB'' ''request'' 5, SignTx, SendTx,
          Print ''Error occured while sending the transaction: {e}; Retrying in {sleep}'',
          Sleep 3,
          BuildTx ''0x735FAAb1c4Ec41128c367AFb5c3baC73509f70bB'' ''request'' 5, SignTx, SendTx,
          Print ''Error occured while sending the transaction: {e}; Retrying in {sleep}'',
          Sleep 3],
      Inr None)"
  by (simp add: send_marketplace_request_def method_args_def submission_loop.simps
      request_attempt_def sample_constants_def sample_world_def never_sent_def or_default_def
      done_io_def raise_io_def)

theorem exhausted_submission_reported_witness:
  "(\<forall>k d. request_send (sample_world PAYMENT_TYPE_NATIVE 9 0 never_sent) k \<noteq> Sent d)
   \<and> 0 \<le> or_default None (WAIT_SLEEP sample_constants)
   \<and> push_metadata_to_ipfs (sample_world PAYMENT_TYPE_NATIVE 9 0 never_sent) \<noteq> None
   \<and> to_checksum_address (sample_world PAYMENT_TYPE_NATIVE 9 0 never_sent)
       ''0x478ad20eD958dCC5AD4ABa6F4E4cc51e07a840E4'' \<noteq> None
   \<and> or_default None (MAX_RETRIES sample_constants) = 3
   \<and> marketplace_interact sample_constants (sample_world PAYMENT_TYPE_NATIVE 9 0 never_sent)
        (sample_config 100) ''What is the weather?'' None False False None None None
        WAIT_FOR_BOTH None None None
      = Run ([WssConnect ''wss://rpc'', Print ''Fetching Mech Info...'',
              EthCall ''0x478ad20eD958dCC5AD4ABa6F4E4cc51e07a840E4'' ''paymentType'',
              EthCall ''0x478ad20eD958dCC5AD4ABa6F4E4cc51e07a840E4'' ''maxDeliveryRate'',
              EthCall ''0x478ad20eD958dCC5AD4ABa6F4E4cc51e07a840E4'' ''serviceId'',
              EthCall ''0x735FAAb1c4Ec41128c367AFb5c3baC73509f70bB'' ''mapPaymentTypeBalanceTrackers'',
              VerifyTool,
              RegisterHandlers ''0x735FAAb1c4Ec41128c367AFb5c3baC73509f70bB'' [] [],
              Print ''Sending Mech Marketplace request...'',
              IpfsPush,
              Print ''  - Prompt uploaded: https://gateway.autonolas.tech/ipfs/{v1_file_hash_hex}'',
              BuildTx ''0x735FAAb1c4Ec41128c367AFb5c3baC73509f70bB'' ''request'' 5, SignTx, SendTx,
              Print ''Error occured while sending the transaction: {e}; Retrying in {sleep}'',
              Sleep 3,
              BuildTx ''0x735FAAb1c4Ec41128c367AFb5c3baC73509f70bB'' ''request'' 5, SignTx, SendTx,
              Print ''Error occured while sending the transaction: {e}; Retrying in {sleep}'',
              Sleep 3,
              BuildTx ''0x735FAAb1c4Ec41128c367AFb5c3baC73509f70bB'' ''request'' 5, SignTx, SendTx,
              Print ''Error occured while sending the transaction: {e}; Retrying in {sleep}'',
              Sleep 3,
              Print ''Unable to send request''],
             Inr None)"
proof -
  let ?w = "sample_world PAYMENT_TYPE_NATIVE 9 0 never_sent"
  have h1: "\<not> False" by simp
  have h2: "0 \<le> or_default (None :: rat option) (WAIT_SLEEP sample_constants)"
    by (simp add: or_default_def sample_constants_def)
  have h3: "\<forall>k d. 0 < k \<and> k \<le> (3::nat) \<longrightarrow> request_send ?w k \<noteq> Sent d"
    by (simp add: sample_world_def never_sent_def)
  have h5: "push_metadata_to_ipfs ?w \<noteq> None" by (simp add: sample_world_def)
  have h6: "to_checksum_address ?w
              (rc_priority_mech_address
                 \<lparr>rc_mech_marketplace_contract = ''0x735FAAb1c4Ec41128c367AFb5c3baC73509f70bB'',
                  rc_priority_mech_address = ''0x478ad20eD958dCC5AD4ABa6F4E4cc51e07a840E4'',
                  rc_response_timeout = 300,
                  rc_payment_data = ''0x'',
                  rc_delivery_rate = Some 5,
                  rc_payment_type = Some PAYMENT_TYPE_NATIVE\<rparr>) \<noteq> None"
    by (simp add: sample_world_def)
  have h6': "to_checksum_address ?w ''0x478ad20eD958dCC5AD4ABa6F4E4cc51e07a840E4'' \<noteq> None"
    by (simp add: sample_world_def)
  have g: "gas_limit (sample_config 100) = 100000" by (simp add: sample_config_def)
  have h4: "\<forall>k d. request_send ?w k \<noteq> Sent d"
    by (simp add: sample_world_def never_sent_def)
  have v: "or_default (None :: int option) (MAX_RETRIES sample_constants) = 3"
    by (simp add: or_default_def sample_constants_def)
  show ?thesis
    using h2 h4 h5 h6' v
      exhausted_submission_reported [OF sample_preflight_native h1 h2 h5 h6
        sample_send_never [folded g] h3, where confirmation_type = WAIT_FOR_BOTH]
    by simp
qed

section \<open>The delivery waiter\<close>

text \<open>
  C1, as amended. When the confirmation type asks for both channels, the waiter starts
  one watch only, the on-chain one, for the request identifier: for the off-chain
  channel it prints that this is still to be implemented. The single task is the first
  to complete, there is no other task to cancel, and the result of the on-chain watch
  is returned.
\<close>

theorem wait_for_both_starts_onchain_watch_only:
  "create_tasks request_id subgraph WAIT_FOR_BOTH
   = ([Print ''Off chain to be implemented'', CreateTask OnChainWatch request_id]
        @ (if subgraph \<noteq> [] then [Print ''Subgraph to be implemented''] else []),
      [OnChainWatch])
   \<and> wait_for_tasks w request_id [OnChainWatch]
     = ([], Inr (watch_result w OnChainWatch request_id))
   \<and> wait_for_marketplace_data_url w request_id subgraph WAIT_FOR_BOTH
     = ([Print ''Off chain to be implemented'', CreateTask OnChainWatch request_id]
          @ (if subgraph \<noteq> [] then [Print ''Subgraph to be implemented''] else []),
        Inr (watch_result w OnChainWatch request_id))"
  by (simp add: wait_for_marketplace_data_url_def create_tasks_def wait_for_tasks_def io_defs)

theorem wait_for_both_counterexample:
  "snd (create_tasks ''2a'' [] WAIT_FOR_BOTH) = [OnChainWatch]
   \<and> OffChainWatch \<notin> set (snd (create_tasks ''2a'' [] WAIT_FOR_BOTH))
   \<and> fst (wait_for_marketplace_data_url (sample_world PAYMENT_TYPE_NATIVE 9 0 always_sent)
            ''2a'' [] WAIT_FOR_BOTH)
     = [Print ''Off chain to be implemented'', CreateTask OnChainWatch ''2a'']
   \<and> CreateTask OffChainWatch ''2a''
       \<notin> set (fst (wait_for_marketplace_data_url
                     (sample_world PAYMENT_TYPE_NATIVE 9 0 always_sent) ''2a'' []
                     WAIT_FOR_BOTH))"
  by (simp add: wait_for_marketplace_data_url_def create_tasks_def wait_for_tasks_def io_defs
      sample_world_def)

section \<open>The off-chain poll\<close>

lemma poll_skips_failures:
  assumes "\<forall>j<k. fetch (i + j) = PollRaises \<or> (\<exists>r. fetch (i + j) = PollAnswer r \<and> \<not> truthy r)"
    and "fetch (i + k) = PollAnswer response" and "truthy response"
  shows "\<exists>es. wait_for_offchain_marketplace_data fetch request_id i done = Some (es, response)"
  using assms
proof (induction k arbitrary: i "done")
  case 0
  then show ?case
    by (simp add: wait_for_offchain_marketplace_data.simps[of fetch request_id i "done"])
next
  case (Suc k)
  have later: "\<forall>j<k. fetch (Suc i + j) = PollRaises
                 \<or> (\<exists>r. fetch (Suc i + j) = PollAnswer r \<and> \<not> truthy r)"
    using Suc.prems(1) by (metis Suc_less_eq add_Suc_shift)
  have last: "fetch (Suc i + k) = PollAnswer response" using Suc.prems(2) by simp
  have now: "fetch i = PollRaises \<or> (\<exists>r. fetch i = PollAnswer r \<and> \<not> truthy r)"
    using Suc.prems(1) by (metis add.right_neutral zero_less_Suc)
  from now show ?case
  proof
    assume "fetch i = PollRaises"
    then show ?thesis
      using Suc.IH[OF later last Suc.prems(3)]
      by (simp add: wait_for_offchain_marketplace_data.simps[of fetch request_id i "done"])
  next
    assume "\<exists>r. fetch i = PollAnswer r \<and> \<not> truthy r"
    then show ?thesis
      using Suc.IH[OF later last Suc.prems(3)]
      by (auto simp: wait_for_offchain_marketplace_data.simps[of fetch request_id i "done"])
  qed
qed

text \<open>
  C9. The loop does return the first answer that is not empty. The wait of one second,
  however, follows an exception only. At an endpoint that answers the first request
  with an empty object and the second with a result, the two requests follow each
  other with no wait in between; at an endpoint whose first request fails, the wait is
  there.
\<close>

theorem poll_again_without_waiting:
  "wait_for_offchain_marketplace_data empty_then_data (JInt 42) 0 []
   = Some ([HttpGet ''http://localhost:8000/fetch_offchain_info'' [JInt 42],
            HttpGet ''http://localhost:8000/fetch_offchain_info'' [JInt 42]],
           JObj [(''task_result'', JStr ''ab'')])
   \<and> wait_for_offchain_marketplace_data raise_then_data (JInt 42) 0 []
     = Some ([HttpGet ''http://localhost:8000/fetch_offchain_info'' [JInt 42],
              Sleep 1,
              HttpGet ''http://localhost:8000/fetch_offchain_info'' [JInt 42]],
             JObj [(''task_result'', JStr ''ab'')])"
  by (simp add: wait_for_offchain_marketplace_data.simps empty_then_data_def
      raise_then_data_def)

section \<open>The nonce in the request metadata\<close>

lemma dict_set_twice: "dict_set k v (dict_set k v1 m) = dict_set k v m"
  by (induction m) auto

lemma dict_set_swap:
  "k \<noteq> k' \<Longrightarrow> k \<in> set (map fst m) \<Longrightarrow>
   dict_set k' v (dict_set k v1 m) = dict_set k v1 (dict_set k' v m)"
proof (induction m)
  case Nil
  then show ?case by simp
next
  case (Cons entry m)
  obtain a b where entry: "entry = (a, b)" by (cases entry)
  show ?case
  proof (cases "a = k \<or> a = k'")
    case True
    then show ?thesis using Cons.prems(1) by (auto simp: entry)
  next
    case False
    then have "k \<in> set (map fst m)" using Cons.prems(2) by (auto simp: entry)
    then show ?thesis using False Cons.IH Cons.prems(1) by (simp add: entry)
  qed
qed

lemma dict_set_keys: "set (map fst (dict_set k' v m)) = insert k' (set (map fst m))"
proof (induction m)
  case Nil
  then show ?case by simp
next
  case (Cons entry m)
  obtain a b where entry: "entry = (a, b)" by (cases entry)
  from Cons.IH show ?case
    by (cases "a = k'") (simp_all add: entry insert_commute)
qed

lemma dict_set_keeps_key: "k \<in> set (map fst m) \<Longrightarrow> k \<in> set (map fst (dict_set k' v m))"
  unfolding dict_set_keys by (rule insertI2)

lemma dict_update_overrides:
  assumes "k \<in> set (map fst other)" and "k \<in> set (map fst m)"
  shows "dict_update (dict_set k v1 m) other = dict_update (dict_set k v2 m) other"
  using assms unfolding dict_update_def
proof (induction other arbitrary: m)
  case Nil
  then show ?case by simp
next
  case (Cons entry other)
  obtain k' v where entry: "entry = (k', v)" by (cases entry)
  show ?case
  proof (cases "k' = k")
    case True
    then show ?thesis by (simp add: entry dict_set_twice)
  next
    case False
    then have later: "k \<in> set (map fst other)" using Cons.prems(1) entry by auto
    have kept: "k \<in> set (map fst (dict_set k' v m))"
      using Cons.prems(2) by (rule dict_set_keeps_key)
    have "fold (\<lambda>(k, v). dict_set k v) other (dict_set k v1 (dict_set k' v m))
          = fold (\<lambda>(k, v). dict_set k v) other (dict_set k v2 (dict_set k' v m))"
      using Cons.IH[OF later kept] .
    then show ?thesis
      using False Cons.prems(2) by (simp add: entry dict_set_swap)
  qed
qed

text \<open>
  C8, as amended. The metadata carries a nonce, which is a fresh random identifier in
  every run, so the three results depend on the run. They are the same in two runs
  when the extra attributes bring an entry \<open>nonce\<close> of their own, which replaces the
  random one.
\<close>

theorem fetch_ipfs_hash_with_own_nonce:
  assumes "''nonce'' \<in> set (map fst extra)"
  shows "fetch_ipfs_hash t uuid4 prompt tool (Some extra)
         = fetch_ipfs_hash t uuid4' prompt tool (Some extra)"
proof -
  let ?m = "[(''prompt'', JStr prompt), (''tool'', JStr tool), (''nonce'', JNull)]"
  have init: "[(''prompt'', JStr prompt), (''tool'', JStr tool), (''nonce'', JStr u)]
              = dict_set ''nonce'' (JStr u) ?m" for u
    by simp
  have key: "''nonce'' \<in> set (map fst ?m)" by simp
  have "dict_update [(''prompt'', JStr prompt), (''tool'', JStr tool), (''nonce'', JStr uuid4)] extra
        = dict_update [(''prompt'', JStr prompt), (''tool'', JStr tool), (''nonce'', JStr uuid4')] extra"
    unfolding init using dict_update_overrides[OF assms key] .
  moreover have "extra \<noteq> []" using assms by auto
  ultimately show ?thesis by (simp add: fetch_ipfs_hash_def Let_def)
qed

theorem fetch_ipfs_hash_with_own_nonce_witness:
  "fetch_ipfs_hash sample_tools ''1b4e28ba-2fa1-4d3b-a3f5-ef19b5a7633b'' ''What is the weather?''
     ''openai-gpt-4'' (Some [(''nonce'', JStr ''fixed''), (''temperature'', JInt 1)])
   = fetch_ipfs_hash sample_tools ''6fa459ea-ee8a-4ca4-894e-db77e160355e'' ''What is the weather?''
       ''openai-gpt-4'' (Some [(''nonce'', JStr ''fixed''), (''temperature'', JInt 1)])
   \<and> dict_update [(''prompt'', JStr ''What is the weather?''), (''tool'', JStr ''openai-gpt-4''),
                   (''nonce'', JStr ''1b4e28ba-2fa1-4d3b-a3f5-ef19b5a7633b'')]
        [(''nonce'', JStr ''fixed''), (''temperature'', JInt 1)]
     = [(''prompt'', JStr ''What is the weather?''), (''tool'', JStr ''openai-gpt-4''),
        (''nonce'', JStr ''fixed''), (''temperature'', JInt 1)]"
proof -
  have h: "''nonce'' \<in> set (map fst [(''nonce'', JStr ''fixed''), (''temperature'', JInt 1)])"
    by simp
  have v: "dict_update [(''prompt'', JStr ''What is the weather?''), (''tool'', JStr ''openai-gpt-4''),
                   (''nonce'', JStr ''1b4e28ba-2fa1-4d3b-a3f5-ef19b5a7633b'')]
        [(''nonce'', JStr ''fixed''), (''temperature'', JInt 1)]
     = [(''prompt'', JStr ''What is the weather?''), (''tool'', JStr ''openai-gpt-4''),
        (''nonce'', JStr ''fixed''), (''temperature'', JInt 1)]"
    by (simp add: dict_update_def)
  show ?thesis
    using v fetch_ipfs_hash_with_own_nonce [OF h, of sample_tools
        "''1b4e28ba-2fa1-4d3b-a3f5-ef19b5a7633b''" "''What is the weather?''" "''openai-gpt-4''"
        "''6fa459ea-ee8a-4ca4-894e-db77e160355e''"]
    by simp
qed

theorem fetch_ipfs_hash_counterexample:
  "fetch_ipfs_hash sample_tools ''1b4e28ba-2fa1-4d3b-a3f5-ef19b5a7633b'' ''hi'' ''t'' None
   \<noteq> fetch_ipfs_hash sample_tools ''6fa459ea-ee8a-4ca4-894e-db77e160355e'' ''hi'' ''t'' None
   \<and> snd (snd (fetch_ipfs_hash sample_tools ''1b4e28ba-2fa1-4d3b-a3f5-ef19b5a7633b'' ''hi'' ''t'' None))
     = [CHR ''{'', CHR 0x22] @ ''prompt'' @ [CHR 0x22, CHR '':'', CHR 0x22] @ ''hi''
       @ [CHR 0x22, CHR '','', CHR 0x22] @ ''tool'' @ [CHR 0x22, CHR '':'', CHR 0x22] @ ''t''
       @ [CHR 0x22, CHR '','', CHR 0x22] @ ''nonce'' @ [CHR 0x22, CHR '':'', CHR 0x22]
       @ ''1b4e28ba-2fa1-4d3b-a3f5-ef19b5a7633b'' @ [CHR 0x22, CHR ''}'']
   \<and> snd (snd (fetch_ipfs_hash sample_tools ''6fa459ea-ee8a-4ca4-894e-db77e160355e'' ''hi'' ''t'' None))
     = [CHR ''{'', CHR 0x22] @ ''prompt'' @ [CHR 0x22, CHR '':'', CHR 0x22] @ ''hi''
       @ [CHR 0x22, CHR '','', CHR 0x22] @ ''tool'' @ [CHR 0x22, CHR '':'', CHR 0x22] @ ''t''
       @ [CHR 0x22, CHR '','', CHR 0x22] @ ''nonce'' @ [CHR 0x22, CHR '':'', CHR 0x22]
       @ ''6fa459ea-ee8a-4ca4-894e-db77e160355e'' @ [CHR 0x22, CHR ''}'']"
  by (simp add: fetch_ipfs_hash_def Let_def json_string_def json_escape_char_def sample_tools_def
      bytes_hex_def hex_digit_def)

end
